theory Spec2Isabelle
  imports Complex_Main
begin

section \<open>Python string operations used by \<open>ocr_utils.py\<close>\<close>

text \<open>
  A Python \<open>str\<close> is modelled as a \<open>string\<close> whose characters are the code points
  0..255. On that range \<open>str.isspace\<close>, the regular expression class \<open>\s\<close>,
  \<open>str.strip()\<close> and \<open>str.split()\<close> all use the same whitespace test, and
  \<open>str.lower()\<close> maps one character to one character.
\<close>

definition isspace :: "char \<Rightarrow> bool" where
  "isspace c = (c \<in> set [CHR 0x09, CHR 0x0A, CHR 0x0B, CHR 0x0C, CHR 0x0D,
                          CHR 0x1C, CHR 0x1D, CHR 0x1E, CHR 0x1F, CHR 0x20,
                          CHR 0x85, CHR 0xA0])"

definition upper_chars :: string where
  "upper_chars = ''ABCDEFGHIJKLMNOPQRSTUVWXYZ'' @
     [CHR 0xC0, CHR 0xC1, CHR 0xC2, CHR 0xC3, CHR 0xC4, CHR 0xC5, CHR 0xC6, CHR 0xC7,
      CHR 0xC8, CHR 0xC9, CHR 0xCA, CHR 0xCB, CHR 0xCC, CHR 0xCD, CHR 0xCE, CHR 0xCF,
      CHR 0xD0, CHR 0xD1, CHR 0xD2, CHR 0xD3, CHR 0xD4, CHR 0xD5, CHR 0xD6,
      CHR 0xD8, CHR 0xD9, CHR 0xDA, CHR 0xDB, CHR 0xDC, CHR 0xDD, CHR 0xDE]"

definition lower_chars :: string where
  "lower_chars = ''abcdefghijklmnopqrstuvwxyz'' @
     [CHR 0xE0, CHR 0xE1, CHR 0xE2, CHR 0xE3, CHR 0xE4, CHR 0xE5, CHR 0xE6, CHR 0xE7,
      CHR 0xE8, CHR 0xE9, CHR 0xEA, CHR 0xEB, CHR 0xEC, CHR 0xED, CHR 0xEE, CHR 0xEF,
      CHR 0xF0, CHR 0xF1, CHR 0xF2, CHR 0xF3, CHR 0xF4, CHR 0xF5, CHR 0xF6,
      CHR 0xF8, CHR 0xF9, CHR 0xFA, CHR 0xFB, CHR 0xFC, CHR 0xFD, CHR 0xFE]"

definition lower_char :: "char \<Rightarrow> char" where
  "lower_char c = (case map_of (zip upper_chars lower_chars) c of Some d \<Rightarrow> d | None \<Rightarrow> c)"

definition str_lower :: "string \<Rightarrow> string" where
  "str_lower s = map lower_char s"

definition str_strip :: "string \<Rightarrow> string" where
  "str_strip s = rev (dropWhile isspace (rev (dropWhile isspace s)))"

text \<open>\<open>s.split()\<close>: the maximal runs of non-whitespace characters, in order.\<close>

fun split_words :: "string \<Rightarrow> string \<Rightarrow> string list" where
  "split_words w [] = (if w = [] then [] else [w])"
| "split_words w (c # cs) =
     (if isspace c then (if w = [] then split_words [] cs else w # split_words [] cs)
      else split_words (w @ [c]) cs)"

definition str_split :: "string \<Rightarrow> string list" where
  "str_split s = split_words [] s"

text \<open>\<open>sep.join(xs)\<close>.\<close>

fun str_join :: "string \<Rightarrow> string list \<Rightarrow> string" where
  "str_join sep [] = []"
| "str_join sep [x] = x"
| "str_join sep (x # y # ys) = x @ sep @ str_join sep (y # ys)"

definition str_startswith :: "string \<Rightarrow> string \<Rightarrow> bool" where
  "str_startswith s p = (take (length p) s = p)"

text \<open>\<open>p in s\<close> on strings: \<open>p\<close> occurs in \<open>s\<close> as a contiguous run.\<close>

fun str_in :: "string \<Rightarrow> string \<Rightarrow> bool" where
  "str_in p [] = (p = [])"
| "str_in p (c # cs) = (str_startswith (c # cs) p \<or> str_in p cs)"

text \<open>\<open>str(n)\<close> for a non-negative integer: its decimal digits.\<close>

fun str_of_nat :: "nat \<Rightarrow> string" where
  "str_of_nat n =
     (if n < 10 then [''0123456789'' ! n]
      else str_of_nat (n div 10) @ [''0123456789'' ! (n mod 10)])"

text \<open>\<open>re.sub(r'\s+', ' ', s)\<close>: every maximal whitespace run becomes one space.\<close>

function re_collapse_ws :: "string \<Rightarrow> string" where
  "re_collapse_ws [] = []"
| "re_collapse_ws (c # cs) =
     (if isspace c then CHR '' '' # re_collapse_ws (dropWhile isspace cs)
      else c # re_collapse_ws cs)"
  by pat_completeness auto
termination
  by (relation "measure length") (auto simp: le_imp_less_Suc length_dropWhile_le)

text \<open>
  \<open>re.sub(r'^#+\s*', '', s)\<close>: the pattern is anchored at the start of the string and
  needs one \<open>#\<close>, so it matches at most once; the match is the whole leading run of
  \<open>#\<close> and the whitespace after it.
\<close>

definition re_strip_hashes :: "string \<Rightarrow> string" where
  "re_strip_hashes s =
     (if str_startswith s ''#''
      then dropWhile isspace (dropWhile (\<lambda>c. c = CHR ''#'') s)
      else s)"

definition newline :: string where
  "newline = [CHR 0x0A]"

section \<open>Data model\<close>

text \<open>
  The OCR input is a list of page dictionaries; every key the code tests with \<open>in\<close>
  is an optional field. A bounding box is the list of numbers stored under \<open>bbox\<close>.
\<close>

type_synonym bbox = "int list"

record layout_item =
  item_text :: "string option"
  item_bbox :: "bbox option"
  item_category :: "string option"

record page =
  page_no :: "int option"
  full_layout_info :: "layout_item list option"

section \<open>Page Text Extractor: \<open>extract_text_from_ocr_page\<close>\<close>

text \<open>The loop over \<open>page_data['full_layout_info']\<close>, appending to \<open>texts\<close>.\<close>

fun extract_texts_loop :: "layout_item list \<Rightarrow> string list \<Rightarrow> string list" where
  "extract_texts_loop [] texts = texts"
| "extract_texts_loop (item # rest) texts =
     (case item_text item of
        Some t \<Rightarrow>
          if str_strip t \<noteq> [] then extract_texts_loop rest (texts @ [str_strip t])
          else extract_texts_loop rest texts
      | None \<Rightarrow> extract_texts_loop rest texts)"

definition extract_text_from_ocr_page :: "page \<Rightarrow> string" where
  "extract_text_from_ocr_page page_data =
     str_join newline
       (case full_layout_info page_data of
          None \<Rightarrow> []
        | Some items \<Rightarrow> extract_texts_loop items [])"

section \<open>Header Locator: \<open>extract_section_headers_with_bbox\<close>\<close>

record header =
  hdr_page_no :: int
  hdr_text :: string
  hdr_bbox :: bbox
  hdr_category :: string
  hdr_physical_index :: int

text \<open>\<open>page_data.get('page_no', d)\<close>.\<close>

definition page_no_or :: "page \<Rightarrow> int \<Rightarrow> int" where
  "page_no_or page_data d = (case page_no page_data of Some n \<Rightarrow> n | None \<Rightarrow> d)"

text \<open>The inner loop over the items of one page, appending to \<open>headers\<close>.\<close>

fun headers_of_items :: "int \<Rightarrow> layout_item list \<Rightarrow> header list \<Rightarrow> header list" where
  "headers_of_items pn [] headers = headers"
| "headers_of_items pn (item # rest) headers =
     headers_of_items pn rest
       (case item_category item of
          None \<Rightarrow> headers
        | Some c \<Rightarrow>
            if str_in ''Section-header'' c then
              (case item_text item of
                 None \<Rightarrow> headers
               | Some t \<Rightarrow>
                   (case item_bbox item of
                      None \<Rightarrow> headers
                    | Some b \<Rightarrow>
                        headers @
                          [\<lparr>hdr_page_no = pn, hdr_text = str_strip t, hdr_bbox = b,
                            hdr_category = c, hdr_physical_index = pn + 1\<rparr>]))
            else headers)"

text \<open>The outer loop over the pages.\<close>

fun headers_of_pages :: "page list \<Rightarrow> header list \<Rightarrow> header list" where
  "headers_of_pages [] headers = headers"
| "headers_of_pages (page_data # rest) headers =
     headers_of_pages rest
       (case full_layout_info page_data of
          None \<Rightarrow> headers
        | Some items \<Rightarrow> headers_of_items (page_no_or page_data 0) items headers)"

definition extract_section_headers_with_bbox :: "page list \<Rightarrow> header list" where
  "extract_section_headers_with_bbox ocr_results = headers_of_pages ocr_results []"

section \<open>Hierarchy Inferencer: \<open>detect_toc_from_headers\<close>\<close>

text \<open>
  The dictionaries appended to \<open>toc_items\<close> always carry \<open>structure\<close> (possibly
  \<open>None\<close>), \<open>title\<close>, \<open>physical_index\<close>, \<open>bbox\<close>, \<open>page_no\<close> and \<open>level\<close>, so
  \<open>h.get('level', 1)\<close> reads the stored level; \<open>parent_section\<close> is the one key
  that may be missing, and \<open>h.get('parent_section')\<close> is then \<open>None\<close>.
\<close>

record toc_item =
  toc_structure :: "string option"
  toc_title :: string
  toc_physical_index :: int
  toc_bbox :: bbox
  toc_page_no :: int
  toc_level :: nat
  toc_parent_section :: "nat option"

record toc_result =
  toc_items :: "toc_item list"
  has_structure :: bool

definition header_level :: "string \<Rightarrow> nat" where
  "header_level t =
     (if str_startswith t ''####'' then 4
      else if str_startswith t ''###'' then 3
      else if str_startswith t ''##'' then 2
      else if str_startswith t ''#'' then 1
      else 1)"

text \<open>The body of the loop: the dictionary built for one header, given the items so far.\<close>

definition make_toc_item :: "toc_item list \<Rightarrow> header \<Rightarrow> toc_item" where
  "make_toc_item items header =
     (let t = hdr_text header;
          cleaned_text = str_strip (re_strip_hashes t);
          level = header_level t;
          structure_parts =
            (if level = 1 then
               [str_of_nat (length (filter (\<lambda>h. toc_level h = 1) items) + 1)]
             else if level = 2 then
               (let parent_sections = filter (\<lambda>h. toc_level h = 1) items;
                    current_l2_count =
                      length (filter (\<lambda>h. toc_level h = 2 \<and>
                                toc_parent_section h = Some (length parent_sections)) items)
                in [str_of_nat (length parent_sections), str_of_nat (current_l2_count + 1)])
             else []);
          structure =
            (if structure_parts \<noteq> [] then Some (str_join ''.'' structure_parts) else None)
      in \<lparr>toc_structure = structure,
          toc_title = cleaned_text,
          toc_physical_index = hdr_physical_index header,
          toc_bbox = hdr_bbox header,
          toc_page_no = hdr_page_no header,
          toc_level = level,
          toc_parent_section =
            (if level = 2 \<and> length (filter (\<lambda>h. toc_level h = 1) items) > 0
             then Some (length (filter (\<lambda>h. toc_level h = 1) items))
             else None)\<rparr>)"

fun detect_loop :: "header list \<Rightarrow> toc_item list \<Rightarrow> toc_item list" where
  "detect_loop [] items = items"
| "detect_loop (header # rest) items =
     detect_loop rest (items @ [make_toc_item items header])"

definition detect_toc_from_headers :: "header list \<Rightarrow> toc_result" where
  "detect_toc_from_headers headers =
     (let items = detect_loop headers []
      in \<lparr>toc_items = items, has_structure = (length items > 0)\<rparr>)"

section \<open>Fuzzy Anchor Matcher: \<open>find_text_bbox_in_page\<close>\<close>

text \<open>\<open>re.sub(r'\s+', ' ', s.lower().strip())\<close>.\<close>

definition clean_text :: "string \<Rightarrow> string" where
  "clean_text s = re_collapse_ws (str_strip (str_lower s))"

text \<open>
  The third disjunct of the fuzzy test, on two cleaned strings:
  \<open>len(set(a.split()) & set(b.split())) > min(len(a.split()), len(b.split())) * 0.5\<close>.
  The product is a float; it is exact for every list length below \<open>2^53\<close>, so the
  comparison is the one of the real numbers.
\<close>

definition word_overlap :: "string \<Rightarrow> string \<Rightarrow> bool" where
  "word_overlap a b =
     (real (card (set (str_split a) \<inter> set (str_split b)))
        > real (min (length (str_split a)) (length (str_split b))) * 0.5)"

text \<open>The loop over the items; \<open>return\<close> inside the loop ends it.\<close>

fun find_loop :: "layout_item list \<Rightarrow> string \<Rightarrow> bool \<Rightarrow> bbox option" where
  "find_loop [] search_text_clean fuzzy_match = None"
| "find_loop (item # rest) search_text_clean fuzzy_match =
     (case item_text item of
        None \<Rightarrow> find_loop rest search_text_clean fuzzy_match
      | Some t \<Rightarrow>
          (case item_bbox item of
             None \<Rightarrow> find_loop rest search_text_clean fuzzy_match
           | Some b \<Rightarrow>
               (let item_text_clean = clean_text t in
                if fuzzy_match then
                  (if str_in search_text_clean item_text_clean
                      \<or> str_in item_text_clean search_text_clean
                      \<or> word_overlap search_text_clean item_text_clean
                   then Some b
                   else find_loop rest search_text_clean fuzzy_match)
                else
                  (if search_text_clean = item_text_clean then Some b
                   else find_loop rest search_text_clean fuzzy_match))))"

definition find_text_bbox_in_page :: "page \<Rightarrow> string \<Rightarrow> bool \<Rightarrow> bbox option" where
  "find_text_bbox_in_page page_data search_text fuzzy_match =
     (case full_layout_info page_data of
        None \<Rightarrow> None
      | Some items \<Rightarrow> find_loop items (clean_text search_text) fuzzy_match)"

text \<open>
  The condition under which the loop returns at an item in fuzzy mode: both keys are
  present, and the disjunction tested by the \<open>if\<close> holds for the cleaned query and the
  cleaned item text.
\<close>

definition item_matches_fuzzy :: "string \<Rightarrow> layout_item \<Rightarrow> bool" where
  "item_matches_fuzzy search_text item =
     (case item_text item of
        None \<Rightarrow> False
      | Some t \<Rightarrow>
          (case item_bbox item of
             None \<Rightarrow> False
           | Some b \<Rightarrow>
               str_in (clean_text search_text) (clean_text t)
               \<or> str_in (clean_text t) (clean_text search_text)
               \<or> word_overlap (clean_text search_text) (clean_text t)))"

section \<open>TOC Anchoring Service: \<open>enhance_toc_with_bbox\<close>\<close>

text \<open>
  A TOC entry is a dictionary that may or may not carry each of the four keys the
  function reads or writes; whatever else it carries is the record's extension.
  Entries are objects: a list of entries is a list of references into a heap, the
  heap being the list of the dictionaries allocated so far. \<open>item.copy()\<close> allocates
  a new dictionary with the same contents, and an assignment to a key updates the
  dictionary at one reference.
\<close>

record toc_entry =
  ent_physical_index :: "int option"
  ent_title :: "string option"
  ent_bbox :: "bbox option"
  ent_page_no :: "int option"

type_synonym ref = nat

definition dict_copy :: "'a list \<Rightarrow> ref \<Rightarrow> 'a list \<times> ref" where
  "dict_copy h r = (h @ [h ! r], length h)"

text \<open>
  The body of the loop, returning the heap and the reference of \<open>enhanced_item\<close>.
  \<open>if bbox:\<close> is Python truthiness: neither \<open>None\<close> nor an empty list.
\<close>

definition enhance_item ::
  "page list \<Rightarrow> 'a toc_entry_scheme list \<Rightarrow> ref \<Rightarrow> 'a toc_entry_scheme list \<times> ref" where
  "enhance_item ocr_results h item =
     (let (h1, enhanced_item) = dict_copy h item in
      case ent_physical_index (h1 ! item) of
        None \<Rightarrow> (h1, enhanced_item)
      | Some physical_index \<Rightarrow>
          (case ent_title (h1 ! item) of
             None \<Rightarrow> (h1, enhanced_item)
           | Some title \<Rightarrow>
               (let page_index = physical_index - 1 in
                if 0 \<le> page_index \<and> page_index < int (length ocr_results) then
                  (let page_data = ocr_results ! nat page_index in
                   case find_text_bbox_in_page page_data title True of
                     None \<Rightarrow> (h1, enhanced_item)
                   | Some bbox \<Rightarrow>
                       if bbox \<noteq> [] then
                         (h1[enhanced_item := (h1 ! enhanced_item)
                               \<lparr>ent_bbox := Some bbox,
                                ent_page_no := Some (page_no_or page_data page_index)\<rparr>],
                          enhanced_item)
                       else (h1, enhanced_item))
                else (h1, enhanced_item))))"

fun enhance_loop ::
  "page list \<Rightarrow> 'a toc_entry_scheme list \<Rightarrow> ref list \<Rightarrow> ref list
     \<Rightarrow> 'a toc_entry_scheme list \<times> ref list" where
  "enhance_loop ocr_results h [] enhanced_items = (h, enhanced_items)"
| "enhance_loop ocr_results h (item # rest) enhanced_items =
     (let (h', enhanced_item) = enhance_item ocr_results h item
      in enhance_loop ocr_results h' rest (enhanced_items @ [enhanced_item]))"

definition enhance_toc_with_bbox ::
  "'a toc_entry_scheme list \<Rightarrow> ref list \<Rightarrow> page list
     \<Rightarrow> 'a toc_entry_scheme list \<times> ref list" where
  "enhance_toc_with_bbox h items ocr_results = enhance_loop ocr_results h items []"

section \<open>Paged Token View: \<open>OCRPageListWrapper\<close>\<close>

datatype py_error = IndexError

text \<open>\<open>xs[i]\<close> for an integer \<open>i\<close>: a negative index counts from the end.\<close>

definition list_getitem :: "'a list \<Rightarrow> int \<Rightarrow> py_error + 'a" where
  "list_getitem xs i =
     (let n = int (length xs);
          j = (if i < 0 then i + n else i)
      in if 0 \<le> j \<and> j < n then Inr (xs ! nat j) else Inl IndexError)"

text \<open>
  The token counter is the external capability \<open>len(encoding_for_model(model).encode(text))\<close>,
  a parameter of the model.
\<close>

fun page_tokens_loop ::
  "(string \<Rightarrow> string \<Rightarrow> nat) \<Rightarrow> string \<Rightarrow> page list \<Rightarrow> (string \<times> nat) list
     \<Rightarrow> (string \<times> nat) list" where
  "page_tokens_loop count_tokens model [] page_list = page_list"
| "page_tokens_loop count_tokens model (page_data # rest) page_list =
     (let page_text = extract_text_from_ocr_page page_data;
          token_length = count_tokens model page_text
      in page_tokens_loop count_tokens model rest (page_list @ [(page_text, token_length)]))"

definition get_page_tokens_from_ocr ::
  "(string \<Rightarrow> string \<Rightarrow> nat) \<Rightarrow> page list \<Rightarrow> string \<Rightarrow> (string \<times> nat) list" where
  "get_page_tokens_from_ocr count_tokens ocr_results model =
     page_tokens_loop count_tokens model ocr_results []"

record ocr_page_list_wrapper =
  w_ocr_results :: "page list"
  w_model :: string
  w_page_list :: "(string \<times> nat) list"

definition OCRPageListWrapper_init ::
  "(string \<Rightarrow> string \<Rightarrow> nat) \<Rightarrow> page list \<Rightarrow> string \<Rightarrow> ocr_page_list_wrapper" where
  "OCRPageListWrapper_init count_tokens ocr_results model =
     \<lparr>w_ocr_results = ocr_results, w_model = model,
      w_page_list = get_page_tokens_from_ocr count_tokens ocr_results model\<rparr>"

definition OCRPageListWrapper_len :: "ocr_page_list_wrapper \<Rightarrow> nat" where
  "OCRPageListWrapper_len w = length (w_page_list w)"

definition OCRPageListWrapper_getitem ::
  "ocr_page_list_wrapper \<Rightarrow> int \<Rightarrow> py_error + (string \<times> nat)" where
  "OCRPageListWrapper_getitem w index = list_getitem (w_page_list w) index"

section \<open>Specification-side predicates of the Fuzzy Anchor Matcher\<close>

text \<open>
  The matching policies in the words of the specification, for comparison with the
  loop of \<open>find_text_bbox_in_page\<close>: an item is a candidate only if it has both a text
  and a bbox. In fuzzy mode it matches when the normalized query is a substring of
  the normalized item text, or the other way round, or the word-overlap rule fires;
  in exact mode when the two normalized strings are equal.

  The word-overlap rule as the specification words it: the size of the intersection
  of the two whitespace-split word sets exceeds 50% of the smaller of the two word-set
  sizes.
\<close>

definition spec_word_overlap :: "string \<Rightarrow> string \<Rightarrow> bool" where
  "spec_word_overlap a b =
     (real (card (set (str_split a) \<inter> set (str_split b)))
        > 0.5 * real (min (card (set (str_split a))) (card (set (str_split b)))))"

definition spec_fuzzy_match :: "string \<Rightarrow> layout_item \<Rightarrow> bool" where
  "spec_fuzzy_match query it =
     (case item_text it of
        None \<Rightarrow> False
      | Some t \<Rightarrow>
          (case item_bbox it of
             None \<Rightarrow> False
           | Some b \<Rightarrow>
               str_in (clean_text query) (clean_text t)
               \<or> str_in (clean_text t) (clean_text query)
               \<or> spec_word_overlap (clean_text query) (clean_text t)))"

definition spec_exact_match :: "string \<Rightarrow> layout_item \<Rightarrow> bool" where
  "spec_exact_match query it =
     (case item_text it of
        None \<Rightarrow> False
      | Some t \<Rightarrow>
          (case item_bbox it of
             None \<Rightarrow> False
           | Some b \<Rightarrow> clean_text t = clean_text query))"

section \<open>Properties of the string operations\<close>

lemma str_startswith_iff: "str_startswith s p \<longleftrightarrow> (\<exists>r. s = p @ r)"
proof
  assume "str_startswith s p"
  then have "s = p @ drop (length p) s"
    by (metis append_take_drop_id str_startswith_def)
  then show "\<exists>r. s = p @ r" ..
next
  assume "\<exists>r. s = p @ r"
  then show "str_startswith s p"
    by (auto simp: str_startswith_def)
qed

lemma str_in_iff: "str_in p s \<longleftrightarrow> (\<exists>a b. s = a @ p @ b)"
proof (induction s)
  case Nil
  then show ?case by auto
next
  case (Cons c cs)
  show ?case
  proof
    assume "str_in p (c # cs)"
    then consider "str_startswith (c # cs) p" | "str_in p cs" by auto
    then show "\<exists>a b. c # cs = a @ p @ b"
    proof cases
      case 1
      then obtain r where "c # cs = p @ r" by (auto simp: str_startswith_iff)
      then have "c # cs = [] @ p @ r" by simp
      then show ?thesis by blast
    next
      case 2
      then obtain a b where "cs = a @ p @ b" using Cons.IH by auto
      then have "c # cs = (c # a) @ p @ b" by simp
      then show ?thesis by blast
    qed
  next
    assume "\<exists>a b. c # cs = a @ p @ b"
    then obtain a b where ab: "c # cs = a @ p @ b" by auto
    show "str_in p (c # cs)"
    proof (cases a)
      case Nil
      with ab have "str_startswith (c # cs) p" by (auto simp: str_startswith_iff)
      then show ?thesis by simp
    next
      case (Cons x a')
      with ab have "cs = a' @ p @ b" by simp
      then have "str_in p cs" using Cons.IH by auto
      then show ?thesis by simp
    qed
  qed
qed

section \<open>Page Text Extractor: results\<close>




section \<open>Header Locator: results\<close>

lemma headers_of_items_eq:
  "headers_of_items pn items hs =
     hs @ map (\<lambda>it. \<lparr>hdr_page_no = pn, hdr_text = str_strip (the (item_text it)),
                      hdr_bbox = the (item_bbox it), hdr_category = the (item_category it),
                      hdr_physical_index = pn + 1\<rparr>)
            (filter (\<lambda>it. (case item_category it of None \<Rightarrow> False
                              | Some c \<Rightarrow> str_in ''Section-header'' c)
                           \<and> item_text it \<noteq> None \<and> item_bbox it \<noteq> None) items)"
proof (induction items arbitrary: hs)
  case Nil
  show ?case by simp
next
  case (Cons it items)
  show ?case
    by (cases "item_category it"; cases "item_text it"; cases "item_bbox it")
       (simp_all add: Cons.IH)
qed

lemma headers_of_pages_eq:
  "headers_of_pages pages hs =
     hs @ concat (map (\<lambda>p.
        map (\<lambda>it. \<lparr>hdr_page_no = page_no_or p 0, hdr_text = str_strip (the (item_text it)),
                      hdr_bbox = the (item_bbox it), hdr_category = the (item_category it),
                      hdr_physical_index = page_no_or p 0 + 1\<rparr>)
            (filter (\<lambda>it. (case item_category it of None \<Rightarrow> False
                              | Some c \<Rightarrow> str_in ''Section-header'' c)
                           \<and> item_text it \<noteq> None \<and> item_bbox it \<noteq> None)
               (case full_layout_info p of None \<Rightarrow> [] | Some items \<Rightarrow> items))) pages)"
proof (induction pages arbitrary: hs)
  case Nil
  show ?case by simp
next
  case (Cons p pages)
  show ?case
    by (cases "full_layout_info p") (simp_all add: Cons.IH headers_of_items_eq)
qed

text \<open>
  C7. For every page sequence, \<open>extract_section_headers_with_bbox\<close> returns one
  header record for exactly the layout items whose category is present and contains
  \<open>Section-header\<close> and which carry both a text and a bbox, page after page and in
  item order within a page; the physical index of every record is the page number of
  its page (0 when the page records none) plus 1.
\<close>

theorem C7_extract_section_headers_with_bbox:
  "extract_section_headers_with_bbox pages =
     concat (map (\<lambda>p.
        map (\<lambda>it. \<lparr>hdr_page_no = page_no_or p 0, hdr_text = str_strip (the (item_text it)),
                      hdr_bbox = the (item_bbox it), hdr_category = the (item_category it),
                      hdr_physical_index = page_no_or p 0 + 1\<rparr>)
            (filter (\<lambda>it. (case item_category it of None \<Rightarrow> False
                              | Some c \<Rightarrow> str_in ''Section-header'' c)
                           \<and> item_text it \<noteq> None \<and> item_bbox it \<noteq> None)
               (case full_layout_info p of None \<Rightarrow> [] | Some items \<Rightarrow> items))) pages)
   \<and> (\<forall>h \<in> set (extract_section_headers_with_bbox pages).
         hdr_physical_index h = hdr_page_no h + 1 \<and> str_in ''Section-header'' (hdr_category h))"
proof -
  have eq: "extract_section_headers_with_bbox pages =
     concat (map (\<lambda>p.
        map (\<lambda>it. \<lparr>hdr_page_no = page_no_or p 0, hdr_text = str_strip (the (item_text it)),
                      hdr_bbox = the (item_bbox it), hdr_category = the (item_category it),
                      hdr_physical_index = page_no_or p 0 + 1\<rparr>)
            (filter (\<lambda>it. (case item_category it of None \<Rightarrow> False
                              | Some c \<Rightarrow> str_in ''Section-header'' c)
                           \<and> item_text it \<noteq> None \<and> item_bbox it \<noteq> None)
               (case full_layout_info p of None \<Rightarrow> [] | Some items \<Rightarrow> items))) pages)"
    by (simp add: extract_section_headers_with_bbox_def headers_of_pages_eq)
  have all: "\<forall>h \<in> set (extract_section_headers_with_bbox pages).
         hdr_physical_index h = hdr_page_no h + 1 \<and> str_in ''Section-header'' (hdr_category h)"
    unfolding eq by (auto split: option.splits)
  from eq all show ?thesis by blast
qed

theorem C7_extract_section_headers_with_bbox_witness:
  "extract_section_headers_with_bbox
     [\<lparr>page_no = Some 3,
       full_layout_info = Some
         [\<lparr>item_text = Some '' # Intro '', item_bbox = Some [1, 2, 3, 4],
           item_category = Some ''Section-header''\<rparr>,
          \<lparr>item_text = Some ''body'', item_bbox = Some [5, 6, 7, 8],
           item_category = Some ''Text''\<rparr>,
          \<lparr>item_text = None, item_bbox = Some [5, 6, 7, 8],
           item_category = Some ''Section-header''\<rparr>]\<rparr>,
      \<lparr>page_no = None, full_layout_info = None\<rparr>,
      \<lparr>page_no = None,
       full_layout_info = Some
         [\<lparr>item_text = Some ''## Two'', item_bbox = Some [9, 9, 9, 9],
           item_category = Some ''A Section-header B''\<rparr>]\<rparr>]
   = [\<lparr>hdr_page_no = 3, hdr_text = ''# Intro'', hdr_bbox = [1, 2, 3, 4],
        hdr_category = ''Section-header'', hdr_physical_index = 4\<rparr>,
      \<lparr>hdr_page_no = 0, hdr_text = ''## Two'', hdr_bbox = [9, 9, 9, 9],
        hdr_category = ''A Section-header B'', hdr_physical_index = 1\<rparr>]"
  using C7_extract_section_headers_with_bbox
    [of "[\<lparr>page_no = Some 3,
       full_layout_info = Some
         [\<lparr>item_text = Some '' # Intro '', item_bbox = Some [1, 2, 3, 4],
           item_category = Some ''Section-header''\<rparr>,
          \<lparr>item_text = Some ''body'', item_bbox = Some [5, 6, 7, 8],
           item_category = Some ''Text''\<rparr>,
          \<lparr>item_text = None, item_bbox = Some [5, 6, 7, 8],
           item_category = Some ''Section-header''\<rparr>]\<rparr>,
      \<lparr>page_no = None, full_layout_info = None\<rparr>,
      \<lparr>page_no = None,
       full_layout_info = Some
         [\<lparr>item_text = Some ''## Two'', item_bbox = Some [9, 9, 9, 9],
           item_category = Some ''A Section-header B''\<rparr>]\<rparr>]"]
  by (simp add: page_no_or_def str_strip_def isspace_def str_startswith_def)

section \<open>Paged Token View: results\<close>

lemma page_tokens_loop_eq:
  "page_tokens_loop count_tokens model pages acc =
     acc @ map (\<lambda>p. (extract_text_from_ocr_page p,
                      count_tokens model (extract_text_from_ocr_page p))) pages"
  by (induction pages arbitrary: acc) (simp_all add: Let_def)

lemma w_page_list_init:
  "w_page_list (OCRPageListWrapper_init count_tokens pages model) =
     map (\<lambda>p. (extract_text_from_ocr_page p,
                 count_tokens model (extract_text_from_ocr_page p))) pages"
  by (simp add: OCRPageListWrapper_init_def get_page_tokens_from_ocr_def page_tokens_loop_eq)

text \<open>
  C9. For every OCR page sequence and token counter, the length of the wrapper is the
  number of pages; for every index \<open>i\<close> with \<open>0 \<le> i < length\<close>, indexing returns the
  pair whose text is \<open>extract_text_from_ocr_page\<close> of page \<open>i\<close> (and whose count is the
  counter applied to that text); and indexing at any \<open>i \<ge> length\<close> raises
  \<open>IndexError\<close>.
\<close>

theorem C9_wrapper_len_getitem:
  "OCRPageListWrapper_len (OCRPageListWrapper_init count_tokens pages model) = length pages
   \<and> (\<forall>i. 0 \<le> i \<and> i < int (length pages) \<longrightarrow>
          OCRPageListWrapper_getitem (OCRPageListWrapper_init count_tokens pages model) i =
            Inr (extract_text_from_ocr_page (pages ! nat i),
                 count_tokens model (extract_text_from_ocr_page (pages ! nat i))))
   \<and> (\<forall>i. int (length pages) \<le> i \<longrightarrow>
          OCRPageListWrapper_getitem (OCRPageListWrapper_init count_tokens pages model) i =
            Inl IndexError)"
  by (auto simp: OCRPageListWrapper_len_def OCRPageListWrapper_getitem_def w_page_list_init
      list_getitem_def Let_def nat_less_iff)

theorem C9_wrapper_len_getitem_witness:
  "OCRPageListWrapper_len
     (OCRPageListWrapper_init (\<lambda>m t. length (str_split t))
        [\<lparr>page_no = Some 0, full_layout_info = Some
            [\<lparr>item_text = Some ''one two'', item_bbox = None, item_category = None\<rparr>]\<rparr>,
         \<lparr>page_no = Some 1, full_layout_info = None\<rparr>] ''gpt-4o'') = 2
   \<and> OCRPageListWrapper_getitem
       (OCRPageListWrapper_init (\<lambda>m t. length (str_split t))
          [\<lparr>page_no = Some 0, full_layout_info = Some
              [\<lparr>item_text = Some ''one two'', item_bbox = None, item_category = None\<rparr>]\<rparr>,
           \<lparr>page_no = Some 1, full_layout_info = None\<rparr>] ''gpt-4o'') 0 = Inr (''one two'', 2)
   \<and> OCRPageListWrapper_getitem
       (OCRPageListWrapper_init (\<lambda>m t. length (str_split t))
          [\<lparr>page_no = Some 0, full_layout_info = Some
              [\<lparr>item_text = Some ''one two'', item_bbox = None, item_category = None\<rparr>]\<rparr>,
           \<lparr>page_no = Some 1, full_layout_info = None\<rparr>] ''gpt-4o'') 2 = Inl IndexError"
  using C9_wrapper_len_getitem
    [of "\<lambda>m t. length (str_split t)"
        "[\<lparr>page_no = Some 0, full_layout_info = Some
            [\<lparr>item_text = Some ''one two'', item_bbox = None, item_category = None\<rparr>]\<rparr>,
          \<lparr>page_no = Some 1, full_layout_info = None\<rparr>]" "''gpt-4o''"]
  by (simp add: OCRPageListWrapper_getitem_def OCRPageListWrapper_len_def w_page_list_init
      list_getitem_def extract_text_from_ocr_page_def str_strip_def str_split_def isspace_def)

text \<open>
  C10. For a wrapper over \<open>n\<close> pages and an index \<open>i\<close> with \<open>-n \<le> i \<le> -1\<close>, indexing
  does not raise: it returns the pair at position \<open>n + i\<close>, the pair of page \<open>n + i\<close>.
  Indexing raises exactly for \<open>i < -n\<close> and for \<open>i \<ge> n\<close>.
\<close>

theorem C10_wrapper_negative_index:
  "(- int (length pages) \<le> i \<and> i \<le> - 1 \<longrightarrow>
      OCRPageListWrapper_getitem (OCRPageListWrapper_init count_tokens pages model) i =
        Inr (w_page_list (OCRPageListWrapper_init count_tokens pages model)
               ! nat (int (length pages) + i))
      \<and> OCRPageListWrapper_getitem (OCRPageListWrapper_init count_tokens pages model) i =
        Inr (extract_text_from_ocr_page (pages ! nat (int (length pages) + i)),
             count_tokens model
               (extract_text_from_ocr_page (pages ! nat (int (length pages) + i)))))
   \<and> (OCRPageListWrapper_getitem (OCRPageListWrapper_init count_tokens pages model) i =
        Inl IndexError
      \<longleftrightarrow> i < - int (length pages) \<or> int (length pages) \<le> i)"
  by (auto simp: OCRPageListWrapper_getitem_def w_page_list_init list_getitem_def Let_def
      add.commute)

theorem C10_wrapper_negative_index_witness:
  "OCRPageListWrapper_getitem
       (OCRPageListWrapper_init (\<lambda>m t. length (str_split t))
          [\<lparr>page_no = Some 0, full_layout_info = None\<rparr>,
           \<lparr>page_no = Some 1, full_layout_info = Some
              [\<lparr>item_text = Some ''one two'', item_bbox = None, item_category = None\<rparr>]\<rparr>]
          ''gpt-4o'') (- 1) = Inr (''one two'', 2)
   \<and> OCRPageListWrapper_getitem
       (OCRPageListWrapper_init (\<lambda>m t. length (str_split t))
          [\<lparr>page_no = Some 0, full_layout_info = None\<rparr>,
           \<lparr>page_no = Some 1, full_layout_info = Some
              [\<lparr>item_text = Some ''one two'', item_bbox = None, item_category = None\<rparr>]\<rparr>]
          ''gpt-4o'') (- 3) = Inl IndexError"
  using
    C10_wrapper_negative_index
      [of "[\<lparr>page_no = Some 0, full_layout_info = None\<rparr>,
           \<lparr>page_no = Some 1, full_layout_info = Some
              [\<lparr>item_text = Some ''one two'', item_bbox = None, item_category = None\<rparr>]\<rparr>]"
          "- 1" "\<lambda>m t. length (str_split t)" "''gpt-4o''"]
    C10_wrapper_negative_index
      [of "[\<lparr>page_no = Some 0, full_layout_info = None\<rparr>,
           \<lparr>page_no = Some 1, full_layout_info = Some
              [\<lparr>item_text = Some ''one two'', item_bbox = None, item_category = None\<rparr>]\<rparr>]"
          "- 3" "\<lambda>m t. length (str_split t)" "''gpt-4o''"]
  by (simp add: OCRPageListWrapper_getitem_def OCRPageListWrapper_len_def w_page_list_init
      list_getitem_def extract_text_from_ocr_page_def str_strip_def str_split_def isspace_def)

section \<open>Hierarchy Inferencer: results\<close>

lemma detect_loop_append:
  "detect_loop (xs @ ys) acc = detect_loop ys (detect_loop xs acc)"
  by (induction xs arbitrary: acc) simp_all

lemma detect_loop_extends:
  "\<exists>r. detect_loop hs acc = acc @ r \<and> length r = length hs"
proof (induction hs arbitrary: acc)
  case Nil
  show ?case by simp
next
  case (Cons h hs)
  obtain r where "detect_loop hs (acc @ [make_toc_item acc h]) = (acc @ [make_toc_item acc h]) @ r"
    and "length r = length hs"
    using Cons.IH by blast
  then have "detect_loop (h # hs) acc = acc @ (make_toc_item acc h # r)
      \<and> length (make_toc_item acc h # r) = length (h # hs)"
    by simp
  then show ?case by blast
qed

lemma detect_loop_length: "length (detect_loop hs acc) = length acc + length hs"
  using detect_loop_extends [of hs acc] by auto

lemma detect_loop_nth:
  assumes "i < length hs"
  shows "detect_loop hs [] ! i = make_toc_item (detect_loop (take i hs) []) (hs ! i)"
proof -
  let ?pre = "detect_loop (take i hs) []"
  have split: "hs = take i hs @ (hs ! i) # drop (Suc i) hs"
    using assms by (simp add: id_take_nth_drop)
  have len: "length ?pre = i"
    using assms by (simp add: detect_loop_length)
  have "detect_loop hs [] = detect_loop ((hs ! i) # drop (Suc i) hs) ?pre"
    using split detect_loop_append [of "take i hs" "(hs ! i) # drop (Suc i) hs" "[]"] by simp
  also have "\<dots> = detect_loop (drop (Suc i) hs) (?pre @ [make_toc_item ?pre (hs ! i)])"
    by simp
  finally obtain r where "detect_loop hs [] = (?pre @ [make_toc_item ?pre (hs ! i)]) @ r"
    using detect_loop_extends [of "drop (Suc i) hs" "?pre @ [make_toc_item ?pre (hs ! i)]"]
    by auto
  then show ?thesis using len by (simp add: nth_append)
qed

lemma toc_level_make_toc_item: "toc_level (make_toc_item items h) = header_level (hdr_text h)"
  by (simp add: make_toc_item_def Let_def)

lemma detect_loop_levels:
  "map toc_level (detect_loop hs acc) = map toc_level acc @ map (\<lambda>h. header_level (hdr_text h)) hs"
  by (induction hs arbitrary: acc) (simp_all add: toc_level_make_toc_item)

lemma header_level_2:
  "str_startswith t ''##'' \<Longrightarrow> \<not> str_startswith t ''###'' \<Longrightarrow> header_level t = 2"
proof -
  assume a: "str_startswith t ''##''" and b: "\<not> str_startswith t ''###''"
  have "\<not> str_startswith t ''####''"
  proof
    assume "str_startswith t ''####''"
    then obtain r where "t = ''####'' @ r" by (auto simp: str_startswith_iff)
    then have "t = ''###'' @ (CHR ''#'' # r)" by simp
    then have "str_startswith t ''###''" unfolding str_startswith_iff by blast
    with b show False by simp
  qed
  with a b show ?thesis by (simp add: header_level_def)
qed

lemma make_toc_item_orphan:
  assumes lvl: "header_level (hdr_text h) = 2"
    and no1: "filter (\<lambda>n. toc_level n = 1) items = []"
  shows "toc_parent_section (make_toc_item items h) = None
       \<and> toc_structure (make_toc_item items h) \<noteq> None"
  using lvl no1 by (simp add: make_toc_item_def Let_def)

text \<open>
  C1 (amended). For every header sequence and every position \<open>i\<close> whose header text
  starts with \<open>##\<close> but not with \<open>###\<close>, if no earlier header has level 1, then
  the node emitted for header \<open>i\<close> has no parent-section field, and its structure path
  is present (not \<open>None\<close>): the level-2 branch always builds a path, and only the
  parent-section assignment is guarded by the count of level-1 nodes.
\<close>

theorem C1_orphan_level2:
  assumes "i < length hs"
    and "str_startswith (hdr_text (hs ! i)) ''##''"
    and "\<not> str_startswith (hdr_text (hs ! i)) ''###''"
    and "\<forall>j < i. header_level (hdr_text (hs ! j)) \<noteq> 1"
  shows "toc_parent_section (toc_items (detect_toc_from_headers hs) ! i) = None
       \<and> toc_structure (toc_items (detect_toc_from_headers hs) ! i) \<noteq> None"
proof -
  let ?pre = "detect_loop (take i hs) []"
  have node: "toc_items (detect_toc_from_headers hs) ! i = make_toc_item ?pre (hs ! i)"
    using assms(1) by (simp add: detect_toc_from_headers_def Let_def detect_loop_nth)
  have lv: "map toc_level ?pre = map (\<lambda>h. header_level (hdr_text h)) (take i hs)"
    using detect_loop_levels [of "take i hs" "[]"] by simp
  have "\<forall>l \<in> set (map toc_level ?pre). l \<noteq> 1"
    unfolding lv using assms(1,4) by (auto simp: in_set_conv_nth)
  then have no1: "filter (\<lambda>n. toc_level n = 1) ?pre = []"
    by (auto simp: filter_empty_conv)
  have "header_level (hdr_text (hs ! i)) = 2"
    using assms(2,3) by (rule header_level_2)
  then show ?thesis
    unfolding node using no1 by (rule make_toc_item_orphan)
qed

theorem C1_orphan_level2_witness:
  "toc_parent_section (toc_items (detect_toc_from_headers
      [\<lparr>hdr_page_no = 0, hdr_text = ''### Note'', hdr_bbox = [0, 0, 5, 5],
        hdr_category = ''Section-header'', hdr_physical_index = 1\<rparr>,
       \<lparr>hdr_page_no = 0, hdr_text = ''## B'', hdr_bbox = [0, 6, 5, 9],
        hdr_category = ''Section-header'', hdr_physical_index = 1\<rparr>,
       \<lparr>hdr_page_no = 1, hdr_text = ''# D'', hdr_bbox = [0, 0, 5, 5],
        hdr_category = ''Section-header'', hdr_physical_index = 2\<rparr>]) ! 1) = None
   \<and> toc_structure (toc_items (detect_toc_from_headers
      [\<lparr>hdr_page_no = 0, hdr_text = ''### Note'', hdr_bbox = [0, 0, 5, 5],
        hdr_category = ''Section-header'', hdr_physical_index = 1\<rparr>,
       \<lparr>hdr_page_no = 0, hdr_text = ''## B'', hdr_bbox = [0, 6, 5, 9],
        hdr_category = ''Section-header'', hdr_physical_index = 1\<rparr>,
       \<lparr>hdr_page_no = 1, hdr_text = ''# D'', hdr_bbox = [0, 0, 5, 5],
        hdr_category = ''Section-header'', hdr_physical_index = 2\<rparr>]) ! 1) \<noteq> None"
proof -
  let ?hs = "[\<lparr>hdr_page_no = 0, hdr_text = ''### Note'', hdr_bbox = [0, 0, 5, 5],
        hdr_category = ''Section-header'', hdr_physical_index = 1\<rparr>,
       \<lparr>hdr_page_no = 0, hdr_text = ''## B'', hdr_bbox = [0, 6, 5, 9],
        hdr_category = ''Section-header'', hdr_physical_index = 1\<rparr>,
       \<lparr>hdr_page_no = 1, hdr_text = ''# D'', hdr_bbox = [0, 0, 5, 5],
        hdr_category = ''Section-header'', hdr_physical_index = 2\<rparr>]"
  have len: "1 < length ?hs" by simp
  have two: "str_startswith (hdr_text (?hs ! 1)) ''##''"
    by (simp add: str_startswith_def)
  have three: "\<not> str_startswith (hdr_text (?hs ! 1)) ''###''"
    by (simp add: str_startswith_def)
  have before: "\<forall>j < 1. header_level (hdr_text (?hs ! j)) \<noteq> 1"
    by (simp add: header_level_def str_startswith_def)
  show ?thesis
    using C1_orphan_level2 [OF len two three before] .
qed

text \<open>
  The claim as stated asks for an absent structure path; for the single header
  \<open>## B\<close>, a level-2 header with no level-1 header before it, the path is \<open>0.1\<close>.
\<close>

theorem C1_orphan_level2_counterexample:
  "str_startswith ''## B'' ''##'' \<and> \<not> str_startswith ''## B'' ''###''
   \<and> toc_structure (toc_items (detect_toc_from_headers
        [\<lparr>hdr_page_no = 0, hdr_text = ''## B'', hdr_bbox = [0, 0, 5, 5],
          hdr_category = ''Section-header'', hdr_physical_index = 1\<rparr>]) ! 0) = Some ''0.1''
   \<and> toc_structure (toc_items (detect_toc_from_headers
        [\<lparr>hdr_page_no = 0, hdr_text = ''## B'', hdr_bbox = [0, 0, 5, 5],
          hdr_category = ''Section-header'', hdr_physical_index = 1\<rparr>]) ! 0) \<noteq> None"
  by (simp add: detect_toc_from_headers_def make_toc_item_def header_level_def
      str_startswith_def Let_def)

text \<open>
  The ordinal in the path of such a header does not advance. The level-2 branch counts
  the earlier level-2 nodes recorded under parent \<open>P\<close> to number them \<open>P.1\<close>, \<open>P.2\<close>,
  and so on; with \<open>P = 0\<close> no node records a parent, so the count stays 0 and every
  level-2 header before the first level-1 header receives the same path.
\<close>

lemma orphan_level2_paths_repeat:
  "map toc_structure (toc_items (detect_toc_from_headers
       [a\<lparr>hdr_text := ''## B''\<rparr>, b\<lparr>hdr_text := ''## C''\<rparr>,
        c\<lparr>hdr_text := ''### E''\<rparr>, d\<lparr>hdr_text := ''## F''\<rparr>]))
     = [Some ''0.1'', Some ''0.1'', None, Some ''0.1'']"
  by (simp add: detect_toc_from_headers_def make_toc_item_def header_level_def
      str_startswith_def Let_def)

text \<open>
  C3. For four headers with the texts \<open># A\<close>, \<open>## B\<close>, \<open>## C\<close>, \<open># D\<close> in that
  order (their other fields arbitrary), \<open>detect_toc_from_headers\<close> emits four nodes
  with the structure paths \<open>1\<close>, \<open>1.1\<close>, \<open>1.2\<close>, \<open>2\<close>; the nodes of B and C carry
  parent section 1 and the other two none; the titles are \<open>A\<close>, \<open>B\<close>, \<open>C\<close>, \<open>D\<close>;
  and node \<open>k\<close> carries the physical index, bbox and page number of header \<open>k\<close>.
\<close>

theorem C3_four_headers:
  "map toc_structure (toc_items (detect_toc_from_headers
       [a\<lparr>hdr_text := ''# A''\<rparr>, b\<lparr>hdr_text := ''## B''\<rparr>,
        c\<lparr>hdr_text := ''## C''\<rparr>, d\<lparr>hdr_text := ''# D''\<rparr>]))
     = [Some ''1'', Some ''1.1'', Some ''1.2'', Some ''2'']
   \<and> map toc_parent_section (toc_items (detect_toc_from_headers
       [a\<lparr>hdr_text := ''# A''\<rparr>, b\<lparr>hdr_text := ''## B''\<rparr>,
        c\<lparr>hdr_text := ''## C''\<rparr>, d\<lparr>hdr_text := ''# D''\<rparr>]))
     = [None, Some 1, Some 1, None]
   \<and> map toc_title (toc_items (detect_toc_from_headers
       [a\<lparr>hdr_text := ''# A''\<rparr>, b\<lparr>hdr_text := ''## B''\<rparr>,
        c\<lparr>hdr_text := ''## C''\<rparr>, d\<lparr>hdr_text := ''# D''\<rparr>]))
     = [''A'', ''B'', ''C'', ''D'']
   \<and> map (\<lambda>n. (toc_physical_index n, toc_bbox n, toc_page_no n))
        (toc_items (detect_toc_from_headers
          [a\<lparr>hdr_text := ''# A''\<rparr>, b\<lparr>hdr_text := ''## B''\<rparr>,
           c\<lparr>hdr_text := ''## C''\<rparr>, d\<lparr>hdr_text := ''# D''\<rparr>]))
     = map (\<lambda>h. (hdr_physical_index h, hdr_bbox h, hdr_page_no h)) [a, b, c, d]"
  by (simp add: detect_toc_from_headers_def make_toc_item_def header_level_def
      str_startswith_def re_strip_hashes_def str_strip_def isspace_def Let_def)

section \<open>Fuzzy Anchor Matcher: results\<close>

lemma find_loop_fuzzy:
  "find_loop items (clean_text q) True =
     (case find (item_matches_fuzzy q) items of None \<Rightarrow> None | Some it \<Rightarrow> item_bbox it)"
proof (induction items)
  case Nil
  show ?case by simp
next
  case (Cons it items)
  show ?case
    by (cases "item_text it"; cases "item_bbox it")
       (simp_all add: Cons.IH item_matches_fuzzy_def Let_def)
qed

lemma find_loop_exact:
  "find_loop items (clean_text q) False =
     (case find (spec_exact_match q) items of None \<Rightarrow> None | Some it \<Rightarrow> item_bbox it)"
proof (induction items)
  case Nil
  show ?case by simp
next
  case (Cons it items)
  show ?case
    by (cases "item_text it"; cases "item_bbox it")
       (auto simp: Cons.IH spec_exact_match_def Let_def)
qed

lemma find_first_index:
  assumes "i < length xs" and "P (xs ! i)" and "\<forall>j < i. \<not> P (xs ! j)"
  shows "find P xs = Some (xs ! i)"
  using assms by (auto simp: find_Some_iff)

lemma find_no_match:
  assumes "\<forall>x \<in> set xs. \<not> P x"
  shows "find P xs = None"
  using assms by (simp add: find_None_iff)

lemma find_filter_implied:
  assumes "\<And>x. P x \<Longrightarrow> Q x"
  shows "find P (filter Q xs) = find P xs"
  using assms by (induction xs) auto

text \<open>
  C4 (amended). For every page record and query, \<open>find_text_bbox_in_page\<close> in fuzzy
  mode returns the bbox of the first layout item, in item order, that has both a text
  and a bbox and for which the normalized query is a substring of the normalized item
  text, or the normalized item text is a substring of the normalized query, or the
  word-overlap test of the code holds: the number of distinct common words exceeds
  half of the smaller of the two whitespace-split token-list lengths. It returns
  \<open>None\<close> when the page has no layout data and when no item matches.
\<close>

theorem C4_fuzzy_first_match:
  "find_text_bbox_in_page p q True =
     (case full_layout_info p of
        None \<Rightarrow> None
      | Some items \<Rightarrow>
          (case find (item_matches_fuzzy q) items of None \<Rightarrow> None | Some it \<Rightarrow> item_bbox it))
   \<and> (full_layout_info p = None \<longrightarrow> find_text_bbox_in_page p q True = None)
   \<and> (\<forall>items. full_layout_info p = Some items \<and> (\<forall>it \<in> set items. \<not> item_matches_fuzzy q it)
         \<longrightarrow> find_text_bbox_in_page p q True = None)
   \<and> (\<forall>items i. full_layout_info p = Some items \<and> i < length items
          \<and> item_matches_fuzzy q (items ! i) \<and> (\<forall>j < i. \<not> item_matches_fuzzy q (items ! j))
         \<longrightarrow> find_text_bbox_in_page p q True = item_bbox (items ! i)
             \<and> item_bbox (items ! i) \<noteq> None)"
proof -
  have eq: "find_text_bbox_in_page p q True =
     (case full_layout_info p of
        None \<Rightarrow> None
      | Some items \<Rightarrow>
          (case find (item_matches_fuzzy q) items of None \<Rightarrow> None | Some it \<Rightarrow> item_bbox it))"
    by (simp add: find_text_bbox_in_page_def find_loop_fuzzy split: option.splits)
  have none: "full_layout_info p = None \<longrightarrow> find_text_bbox_in_page p q True = None"
    by (simp add: find_text_bbox_in_page_def)
  have miss: "\<forall>items. full_layout_info p = Some items
         \<and> (\<forall>it \<in> set items. \<not> item_matches_fuzzy q it)
         \<longrightarrow> find_text_bbox_in_page p q True = None"
    by (auto simp: eq find_no_match)
  have hit: "\<forall>items i. full_layout_info p = Some items \<and> i < length items
          \<and> item_matches_fuzzy q (items ! i) \<and> (\<forall>j < i. \<not> item_matches_fuzzy q (items ! j))
         \<longrightarrow> find_text_bbox_in_page p q True = item_bbox (items ! i)
             \<and> item_bbox (items ! i) \<noteq> None"
  proof (intro allI impI, elim conjE)
    fix items i
    assume a: "full_layout_info p = Some items" "i < length items"
      "item_matches_fuzzy q (items ! i)" "\<forall>j < i. \<not> item_matches_fuzzy q (items ! j)"
    have "find (item_matches_fuzzy q) items = Some (items ! i)"
      using a(2,3,4) by (rule find_first_index)
    then have r: "find_text_bbox_in_page p q True = item_bbox (items ! i)"
      using a(1) by (simp add: eq)
    have "item_bbox (items ! i) \<noteq> None"
      using a(3) by (auto simp: item_matches_fuzzy_def split: option.splits)
    with r show "find_text_bbox_in_page p q True = item_bbox (items ! i)
             \<and> item_bbox (items ! i) \<noteq> None" by simp
  qed
  from eq none miss hit show ?thesis by blast
qed

theorem C4_fuzzy_first_match_witness:
  "find_text_bbox_in_page
     \<lparr>page_no = Some 0, full_layout_info = Some
           [\<lparr>item_text = Some ''Chapter One Overview'', item_bbox = None,
             item_category = None\<rparr>,
            \<lparr>item_text = Some ''Unrelated words here'', item_bbox = Some [1, 1, 2, 2],
             item_category = None\<rparr>,
            \<lparr>item_text = Some ''chapter one: overview of the topic'',
             item_bbox = Some [3, 3, 4, 4], item_category = None\<rparr>,
            \<lparr>item_text = Some ''Chapter  One Overview'', item_bbox = Some [5, 5, 6, 6],
             item_category = None\<rparr>]\<rparr>
     ''Chapter One Overview'' True = Some [3, 3, 4, 4]
   \<and> find_text_bbox_in_page
     \<lparr>page_no = Some 0, full_layout_info = Some
           [\<lparr>item_text = Some ''Chapter One Overview'', item_bbox = None,
             item_category = None\<rparr>,
            \<lparr>item_text = Some ''Unrelated words here'', item_bbox = Some [1, 1, 2, 2],
             item_category = None\<rparr>,
            \<lparr>item_text = Some ''chapter one: overview of the topic'',
             item_bbox = Some [3, 3, 4, 4], item_category = None\<rparr>,
            \<lparr>item_text = Some ''Chapter  One Overview'', item_bbox = Some [5, 5, 6, 6],
             item_category = None\<rparr>]\<rparr>
     ''Zebra Finance'' True = None
   \<and> find_text_bbox_in_page \<lparr>page_no = Some 0, full_layout_info = None\<rparr>
     ''Chapter One Overview'' True = None
   \<and> str_in (clean_text ''related wor'') (clean_text ''Unrelated words here'')
   \<and> \<not> str_in (clean_text ''Unrelated words here'') (clean_text ''related wor'')
   \<and> \<not> word_overlap (clean_text ''related wor'') (clean_text ''Unrelated words here'')
   \<and> find_text_bbox_in_page
     \<lparr>page_no = Some 0, full_layout_info = Some
           [\<lparr>item_text = Some ''Chapter One Overview'', item_bbox = None,
             item_category = None\<rparr>,
            \<lparr>item_text = Some ''Unrelated words here'', item_bbox = Some [1, 1, 2, 2],
             item_category = None\<rparr>,
            \<lparr>item_text = Some ''chapter one: overview of the topic'',
             item_bbox = Some [3, 3, 4, 4], item_category = None\<rparr>,
            \<lparr>item_text = Some ''Chapter  One Overview'', item_bbox = Some [5, 5, 6, 6],
             item_category = None\<rparr>]\<rparr>
     ''related wor'' True = Some [1, 1, 2, 2]
   \<and> str_in (clean_text ''ab'') (clean_text ''xaby'')
   \<and> \<not> str_in (clean_text ''xaby'') (clean_text ''ab'')
   \<and> \<not> word_overlap (clean_text ''xaby'') (clean_text ''ab'')
   \<and> find_text_bbox_in_page
     \<lparr>page_no = Some 1, full_layout_info = Some
           [\<lparr>item_text = Some ''ab'', item_bbox = Some [7, 7, 8, 8],
             item_category = None\<rparr>]\<rparr>
     ''xaby'' True = Some [7, 7, 8, 8]"
proof -
  let ?items = "[\<lparr>item_text = Some ''Chapter One Overview'', item_bbox = None,
             item_category = None\<rparr>,
            \<lparr>item_text = Some ''Unrelated words here'', item_bbox = Some [1, 1, 2, 2],
             item_category = None\<rparr>,
            \<lparr>item_text = Some ''chapter one: overview of the topic'',
             item_bbox = Some [3, 3, 4, 4], item_category = None\<rparr>,
            \<lparr>item_text = Some ''Chapter  One Overview'', item_bbox = Some [5, 5, 6, 6],
             item_category = None\<rparr>]"
  let ?items2 = "[\<lparr>item_text = Some ''ab'', item_bbox = Some [7, 7, 8, 8],
             item_category = None\<rparr>]"
  let ?p = "\<lparr>page_no = Some 0, full_layout_info = Some ?items\<rparr>"
  let ?p2 = "\<lparr>page_no = Some 1, full_layout_info = Some ?items2\<rparr>"
  let ?e = "\<lparr>page_no = Some 0, full_layout_info = None :: layout_item list option\<rparr>"
  have info: "full_layout_info ?p = Some ?items" by simp
  have info2: "full_layout_info ?p2 = Some ?items2" by simp
  have len: "2 < length ?items" by simp
  have len1: "1 < length ?items" by simp
  have len2: "0 < length ?items2" by simp
  have hit: "item_matches_fuzzy ''Chapter One Overview'' (?items ! 2)"
    by code_simp
  have m0: "\<not> item_matches_fuzzy ''Chapter One Overview'' (?items ! 0)"
    by (simp add: item_matches_fuzzy_def)
  have m1: "\<not> item_matches_fuzzy ''Chapter One Overview'' (?items ! 1)"
    by code_simp
  have before: "\<forall>j < 2. \<not> item_matches_fuzzy ''Chapter One Overview'' (?items ! j)"
  proof (intro allI impI)
    fix j :: nat
    assume "j < 2"
    then have "j = 0 \<or> j = 1" by arith
    with m0 m1 show "\<not> item_matches_fuzzy ''Chapter One Overview'' (?items ! j)" by blast
  qed
  have none: "\<forall>it \<in> set ?items. \<not> item_matches_fuzzy ''Zebra Finance'' it"
    by code_simp
  have a1: "str_in (clean_text ''related wor'') (clean_text ''Unrelated words here'')"
    by code_simp
  have a2: "\<not> str_in (clean_text ''Unrelated words here'') (clean_text ''related wor'')"
    by code_simp
  have a3: "\<not> word_overlap (clean_text ''related wor'') (clean_text ''Unrelated words here'')"
    by code_simp
  have hit_a: "item_matches_fuzzy ''related wor'' (?items ! 1)"
    using a1 by (simp add: item_matches_fuzzy_def)
  have before_a: "\<forall>j < 1. \<not> item_matches_fuzzy ''related wor'' (?items ! j)"
    by (simp add: item_matches_fuzzy_def)
  have b1: "str_in (clean_text ''ab'') (clean_text ''xaby'')"
    by code_simp
  have b2: "\<not> str_in (clean_text ''xaby'') (clean_text ''ab'')"
    by code_simp
  have b3: "\<not> word_overlap (clean_text ''xaby'') (clean_text ''ab'')"
    by code_simp
  have hit_b: "item_matches_fuzzy ''xaby'' (?items2 ! 0)"
    using b1 by (simp add: item_matches_fuzzy_def)
  have before_b: "\<forall>j < 0. \<not> item_matches_fuzzy ''xaby'' (?items2 ! j)"
    by simp
  have r1: "find_text_bbox_in_page ?p ''Chapter One Overview'' True = item_bbox (?items ! 2)"
    using C4_fuzzy_first_match [of ?p "''Chapter One Overview''", THEN conjunct2,
          THEN conjunct2, THEN conjunct2] info len hit before
    by blast
  have r2: "find_text_bbox_in_page ?p ''Zebra Finance'' True = None"
    using C4_fuzzy_first_match [of ?p "''Zebra Finance''", THEN conjunct2,
          THEN conjunct2, THEN conjunct1] info none
    by blast
  have r3: "find_text_bbox_in_page ?e ''Chapter One Overview'' True = None"
    by (rule C4_fuzzy_first_match [of ?e "''Chapter One Overview''", THEN conjunct2,
          THEN conjunct1, rule_format]) simp
  have r4: "find_text_bbox_in_page ?p ''related wor'' True = item_bbox (?items ! 1)"
    using C4_fuzzy_first_match [of ?p "''related wor''", THEN conjunct2,
          THEN conjunct2, THEN conjunct2] info len1 hit_a before_a
    by blast
  have r5: "find_text_bbox_in_page ?p2 ''xaby'' True = item_bbox (?items2 ! 0)"
    using C4_fuzzy_first_match [of ?p2 "''xaby''", THEN conjunct2,
          THEN conjunct2, THEN conjunct2] info2 len2 hit_b before_b
    by blast
  from r1 r2 r3 r4 r5 a1 a2 a3 b1 b2 b3 show ?thesis by simp
qed

text \<open>
  The claim as stated reads the word-overlap rule with the minimum over the word sets.
  Under that reading the item \<open>a b c\<close> matches the query \<open>a a a\<close> (one common word, and
  1 exceeds half of the smaller word-set size 1); the code tests 1 > 1.5 on the token
  lists and returns \<open>None\<close>. On a page with the items \<open>Data b c\<close> and
  \<open>data data data\<close> and the query \<open>data data data\<close>, the first item matches under
  that reading, and the code returns the bbox of the second.
\<close>

theorem C4_fuzzy_first_match_counterexample:
  "spec_fuzzy_match ''a a a''
     \<lparr>item_text = Some ''a b c'', item_bbox = Some [1, 2, 3, 4], item_category = None\<rparr>
   \<and> find_text_bbox_in_page
       \<lparr>page_no = Some 0, full_layout_info = Some
          [\<lparr>item_text = Some ''a b c'', item_bbox = Some [1, 2, 3, 4],
            item_category = None\<rparr>]\<rparr>
       ''a a a'' True = None
   \<and> spec_fuzzy_match ''data data data''
       \<lparr>item_text = Some ''Data b c'', item_bbox = Some [1, 2, 3, 4], item_category = None\<rparr>
   \<and> find_text_bbox_in_page
       \<lparr>page_no = Some 0, full_layout_info = Some
          [\<lparr>item_text = Some ''Data b c'', item_bbox = Some [1, 2, 3, 4],
            item_category = None\<rparr>,
           \<lparr>item_text = Some ''data data data'', item_bbox = Some [5, 6, 7, 8],
            item_category = None\<rparr>]\<rparr>
       ''data data data'' True = Some [5, 6, 7, 8]"
  by code_simp

text \<open>
  C5. For every page record and query, \<open>find_text_bbox_in_page\<close> with fuzzy matching
  disabled returns the bbox of the first layout item that has both a text and a bbox
  and whose normalized text (lower-cased, trimmed, whitespace runs collapsed) equals
  the normalized query; it returns \<open>None\<close> when there is no such item. Items
  lacking a text or a bbox play no role: deleting them from the page leaves the result
  unchanged.
\<close>

theorem C5_exact_first_match:
  "find_text_bbox_in_page p q False =
     (case full_layout_info p of
        None \<Rightarrow> None
      | Some items \<Rightarrow>
          (case find (spec_exact_match q) items of None \<Rightarrow> None | Some it \<Rightarrow> item_bbox it))
   \<and> (\<forall>items. full_layout_info p = Some items \<and> (\<forall>it \<in> set items. \<not> spec_exact_match q it)
         \<longrightarrow> find_text_bbox_in_page p q False = None)
   \<and> (\<forall>items i. full_layout_info p = Some items \<and> i < length items
          \<and> spec_exact_match q (items ! i) \<and> (\<forall>j < i. \<not> spec_exact_match q (items ! j))
         \<longrightarrow> find_text_bbox_in_page p q False = item_bbox (items ! i)
             \<and> item_bbox (items ! i) \<noteq> None)
   \<and> find_text_bbox_in_page
        (p\<lparr>full_layout_info :=
             map_option (filter (\<lambda>it. item_text it \<noteq> None \<and> item_bbox it \<noteq> None))
               (full_layout_info p)\<rparr>) q False
      = find_text_bbox_in_page p q False"
proof -
  have eq: "\<And>p. find_text_bbox_in_page p q False =
     (case full_layout_info p of
        None \<Rightarrow> None
      | Some items \<Rightarrow>
          (case find (spec_exact_match q) items of None \<Rightarrow> None | Some it \<Rightarrow> item_bbox it))"
    by (simp add: find_text_bbox_in_page_def find_loop_exact split: option.splits)
  have miss: "\<forall>items. full_layout_info p = Some items
         \<and> (\<forall>it \<in> set items. \<not> spec_exact_match q it)
         \<longrightarrow> find_text_bbox_in_page p q False = None"
    by (auto simp: eq find_no_match)
  have hit: "\<forall>items i. full_layout_info p = Some items \<and> i < length items
          \<and> spec_exact_match q (items ! i) \<and> (\<forall>j < i. \<not> spec_exact_match q (items ! j))
         \<longrightarrow> find_text_bbox_in_page p q False = item_bbox (items ! i)
             \<and> item_bbox (items ! i) \<noteq> None"
  proof (intro allI impI, elim conjE)
    fix items i
    assume a: "full_layout_info p = Some items" "i < length items"
      "spec_exact_match q (items ! i)" "\<forall>j < i. \<not> spec_exact_match q (items ! j)"
    have "find (spec_exact_match q) items = Some (items ! i)"
      using a(2,3,4) by (rule find_first_index)
    then have r: "find_text_bbox_in_page p q False = item_bbox (items ! i)"
      using a(1) by (simp add: eq)
    have "item_bbox (items ! i) \<noteq> None"
      using a(3) by (auto simp: spec_exact_match_def split: option.splits)
    with r show "find_text_bbox_in_page p q False = item_bbox (items ! i)
             \<and> item_bbox (items ! i) \<noteq> None" by simp
  qed
  have frame: "find_text_bbox_in_page
        (p\<lparr>full_layout_info :=
             map_option (filter (\<lambda>it. item_text it \<noteq> None \<and> item_bbox it \<noteq> None))
               (full_layout_info p)\<rparr>) q False
      = find_text_bbox_in_page p q False"
  proof (cases "full_layout_info p")
    case None
    then show ?thesis by (simp add: eq)
  next
    case (Some items)
    have "find (spec_exact_match q)
        (filter (\<lambda>it. item_text it \<noteq> None \<and> item_bbox it \<noteq> None) items)
      = find (spec_exact_match q) items"
      by (rule find_filter_implied) (auto simp: spec_exact_match_def split: option.splits)
    with Some show ?thesis by (simp add: eq)
  qed
  from eq [of p] miss hit frame show ?thesis by blast
qed


theorem C5_exact_first_match_witness:
  "find_text_bbox_in_page
     \<lparr>page_no = Some 0, full_layout_info = Some
           [\<lparr>item_text = Some ''Chapter One Overview'', item_bbox = None,
             item_category = None\<rparr>,
            \<lparr>item_text = Some ''Unrelated words here'', item_bbox = Some [1, 1, 2, 2],
             item_category = None\<rparr>,
            \<lparr>item_text = Some ''chapter one: overview of the topic'',
             item_bbox = Some [3, 3, 4, 4], item_category = None\<rparr>,
            \<lparr>item_text = Some ''Chapter  One Overview'', item_bbox = Some [5, 5, 6, 6],
             item_category = None\<rparr>]\<rparr>
     ''  chapter one   OVERVIEW '' False = Some [5, 5, 6, 6]
   \<and> find_text_bbox_in_page
     \<lparr>page_no = Some 0, full_layout_info = Some
           [\<lparr>item_text = Some ''Chapter One Overview'', item_bbox = None,
             item_category = None\<rparr>,
            \<lparr>item_text = Some ''Unrelated words here'', item_bbox = Some [1, 1, 2, 2],
             item_category = None\<rparr>,
            \<lparr>item_text = Some ''chapter one: overview of the topic'',
             item_bbox = Some [3, 3, 4, 4], item_category = None\<rparr>,
            \<lparr>item_text = Some ''Chapter  One Overview'', item_bbox = Some [5, 5, 6, 6],
             item_category = None\<rparr>]\<rparr>
     ''Chapter One'' False = None"
proof -
  let ?items = "[\<lparr>item_text = Some ''Chapter One Overview'', item_bbox = None,
             item_category = None\<rparr>,
            \<lparr>item_text = Some ''Unrelated words here'', item_bbox = Some [1, 1, 2, 2],
             item_category = None\<rparr>,
            \<lparr>item_text = Some ''chapter one: overview of the topic'',
             item_bbox = Some [3, 3, 4, 4], item_category = None\<rparr>,
            \<lparr>item_text = Some ''Chapter  One Overview'', item_bbox = Some [5, 5, 6, 6],
             item_category = None\<rparr>]"
  let ?p = "\<lparr>page_no = Some 0, full_layout_info = Some ?items\<rparr>"
  let ?q = "''  chapter one   OVERVIEW ''"
  have info: "full_layout_info ?p = Some ?items" by simp
  have len: "3 < length ?items" by simp
  have hit: "spec_exact_match ?q (?items ! 3)"
    by code_simp
  have m0: "\<not> spec_exact_match ?q (?items ! 0)"
    by (simp add: spec_exact_match_def)
  have m1: "\<not> spec_exact_match ?q (?items ! 1)"
    by code_simp
  have m2: "\<not> spec_exact_match ?q (?items ! 2)"
    by code_simp
  have before: "\<forall>j < 3. \<not> spec_exact_match ?q (?items ! j)"
  proof (intro allI impI)
    fix j :: nat
    assume "j < 3"
    then have "j = 0 \<or> j = 1 \<or> j = 2" by arith
    with m0 m1 m2 show "\<not> spec_exact_match ?q (?items ! j)" by blast
  qed
  have none: "\<forall>it \<in> set ?items. \<not> spec_exact_match ''Chapter One'' it"
    by code_simp
  have r1: "find_text_bbox_in_page ?p ?q False = item_bbox (?items ! 3)"
    using C5_exact_first_match [of ?p ?q, THEN conjunct2, THEN conjunct2, THEN conjunct1]
      info len hit before
    by blast
  have r2: "find_text_bbox_in_page ?p ''Chapter One'' False = None"
    using C5_exact_first_match [of ?p "''Chapter One''", THEN conjunct2, THEN conjunct1]
      info none
    by blast
  from r1 r2 show ?thesis by simp
qed

lemma word_overlap_nat:
  "word_overlap a b \<longleftrightarrow>
     min (length (str_split a)) (length (str_split b))
       < 2 * card (set (str_split a) \<inter> set (str_split b))"
proof -
  have "real m * 0.5 < real x \<longleftrightarrow> m < 2 * x" for m x :: nat
  proof -
    have "real m * 0.5 < real x \<longleftrightarrow> real m < real (2 * x)"
      by (simp add: mult.commute)
    also have "\<dots> \<longleftrightarrow> m < 2 * x" by (rule of_nat_less_iff)
    finally show ?thesis .
  qed
  then show ?thesis by (simp add: word_overlap_def)
qed

text \<open>
  C2 (amended). On two normalized strings, the word-overlap test of the fuzzy mode
  holds if and only if the number of distinct words common to both is strictly greater
  than half of the smaller of the two word counts, where a word count is the length of
  the whitespace-split token list, repeated words counted each time. When neither
  string repeats a word, this is the same as comparing with the smaller of the two
  word-set sizes.
\<close>

theorem C2_word_overlap_raw_lengths:
  "(word_overlap a b \<longleftrightarrow>
      min (length (str_split a)) (length (str_split b))
        < 2 * card (set (str_split a) \<inter> set (str_split b)))
   \<and> (distinct (str_split a) \<and> distinct (str_split b) \<longrightarrow>
        (word_overlap a b \<longleftrightarrow>
           real (card (set (str_split a) \<inter> set (str_split b)))
             > 0.5 * real (min (card (set (str_split a))) (card (set (str_split b))))))"
proof -
  have "word_overlap a b \<longleftrightarrow>
           real (card (set (str_split a) \<inter> set (str_split b)))
             > 0.5 * real (min (card (set (str_split a))) (card (set (str_split b))))"
    if "distinct (str_split a)" and "distinct (str_split b)"
    using that by (simp add: word_overlap_def distinct_card mult.commute)
  then show ?thesis using word_overlap_nat by blast
qed

theorem C2_word_overlap_raw_lengths_witness:
  "distinct (str_split ''chapter one overview'')
   \<and> distinct (str_split ''chapter one: overview of the topic'')
   \<and> word_overlap ''chapter one overview'' ''chapter one: overview of the topic''
   \<and> real (card (set (str_split ''chapter one overview'')
                  \<inter> set (str_split ''chapter one: overview of the topic'')))
        > 0.5 * real (min (card (set (str_split ''chapter one overview'')))
                          (card (set (str_split ''chapter one: overview of the topic''))))"
proof -
  have d1: "distinct (str_split ''chapter one overview'')"
    by code_simp
  have d2: "distinct (str_split ''chapter one: overview of the topic'')"
    by code_simp
  have w: "word_overlap ''chapter one overview'' ''chapter one: overview of the topic''"
    by code_simp
  from d1 d2 w
    C2_word_overlap_raw_lengths
      [of "''chapter one overview''" "''chapter one: overview of the topic''"]
  show ?thesis by blast
qed

text \<open>
  The claim as stated takes the minimum over the word sets. For the query \<open>a a a\<close>
  and the item text \<open>a b c\<close> (both already normalized) the word sets have 1 and 3
  elements and share 1, and 1 exceeds half of 1; but the token lists both have length
  3, the test is 1 > 1.5, and the item is not matched.
\<close>

theorem C2_word_overlap_counterexample:
  "clean_text ''a a a'' = ''a a a'' \<and> clean_text ''a b c'' = ''a b c''
   \<and> real (card (set (str_split ''a a a'') \<inter> set (str_split ''a b c'')))
        > 0.5 * real (min (card (set (str_split ''a a a''))) (card (set (str_split ''a b c''))))
   \<and> \<not> word_overlap ''a a a'' ''a b c''
   \<and> find_text_bbox_in_page
        \<lparr>page_no = Some 0,
         full_layout_info = Some
           [\<lparr>item_text = Some ''a b c'', item_bbox = Some [1, 2, 3, 4],
             item_category = None\<rparr>]\<rparr> ''a a a'' True = None"
  by code_simp

section \<open>TOC Anchoring Service: results\<close>

lemma enhance_item_frame:
  assumes "enhance_item ocr h item = (h', e)"
  shows "e = length h \<and> length h' = Suc (length h) \<and> take (length h) h' = h"
  using assms
  by (auto simp: enhance_item_def dict_copy_def Let_def split: option.splits if_splits)

lemma enhance_item_content:
  assumes "item < length h" and "enhance_item ocr h item = (h', e)"
  shows "h' ! e =
     (case ent_physical_index (h ! item) of
        None \<Rightarrow> h ! item
      | Some pidx \<Rightarrow>
          (case ent_title (h ! item) of
             None \<Rightarrow> h ! item
           | Some title \<Rightarrow>
               if 0 \<le> pidx - 1 \<and> pidx - 1 < int (length ocr) then
                 (case find_text_bbox_in_page (ocr ! nat (pidx - 1)) title True of
                    None \<Rightarrow> h ! item
                  | Some b \<Rightarrow>
                      if b \<noteq> [] then
                        (h ! item)\<lparr>ent_bbox := Some b,
                          ent_page_no := Some (page_no_or (ocr ! nat (pidx - 1)) (pidx - 1))\<rparr>
                      else h ! item)
               else h ! item))"
  using assms
  by (auto simp: enhance_item_def dict_copy_def Let_def nth_append
      split: option.splits if_splits)

lemma enhance_loop_result:
  assumes step: "\<And>h item h' e. item < length h \<Longrightarrow> enhance_item ocr h item = (h', e)
                   \<Longrightarrow> h' ! e = f (h ! item)"
    and valid: "\<forall>r \<in> set items. r < length h"
    and run: "enhance_loop ocr h items acc = (h', out)"
  shows "length h' = length h + length items
       \<and> take (length h) h' = h
       \<and> out = acc @ [length h ..< length h + length items]
       \<and> (\<forall>i < length items. h' ! (length h + i) = f (h ! (items ! i)))"
  using valid run
proof (induction items arbitrary: h acc)
  case Nil
  then show ?case by simp
next
  case (Cons item rest)
  obtain h1 e where it: "enhance_item ocr h item = (h1, e)"
    by (cases "enhance_item ocr h item") auto
  have fr: "e = length h" "length h1 = Suc (length h)" "take (length h) h1 = h"
    using enhance_item_frame [OF it] by auto
  have item_ok: "item < length h" using Cons.prems(1) by simp
  have cell: "h1 ! length h = f (h ! item)"
    using step [OF item_ok it] fr(1) by simp
  have old: "h1 ! r = h ! r" if "r < length h" for r
  proof -
    have "take (length h) h1 ! r = h1 ! r" using that by simp
    then show ?thesis using fr(3) by simp
  qed
  have valid1: "\<forall>r \<in> set rest. r < length h1"
    using Cons.prems(1) fr(2) by auto
  have run1: "enhance_loop ocr h1 rest (acc @ [e]) = (h', out)"
    using Cons.prems(2) it by simp
  have IH: "length h' = length h1 + length rest
       \<and> take (length h1) h' = h1
       \<and> out = (acc @ [e]) @ [length h1 ..< length h1 + length rest]
       \<and> (\<forall>i < length rest. h' ! (length h1 + i) = f (h1 ! (rest ! i)))"
    using Cons.IH [OF valid1 run1] .
  have len: "length h' = length h + length (item # rest)"
    using IH fr(2) by simp
  have keep1: "h' ! r = h1 ! r" if "r < length h1" for r
  proof -
    have "take (length h1) h' ! r = h' ! r" using that by simp
    then show ?thesis using IH by simp
  qed
  have tk: "take (length h) h' = h"
  proof -
    have "take (length h) h' = take (length h) (take (length h1) h')"
      using fr(2) by (simp add: min_def)
    then show ?thesis using IH fr(3) by simp
  qed
  have outs: "out = acc @ [length h ..< length h + length (item # rest)]"
  proof -
    have "[length h ..< length h + Suc (length rest)]
        = length h # [Suc (length h) ..< Suc (length h) + length rest]"
      by (simp add: upt_rec)
    then show ?thesis using IH fr(1,2) by simp
  qed
  have cells: "\<forall>i < length (item # rest). h' ! (length h + i) = f (h ! ((item # rest) ! i))"
  proof (intro allI impI)
    fix i
    assume i: "i < length (item # rest)"
    show "h' ! (length h + i) = f (h ! ((item # rest) ! i))"
    proof (cases i)
      case 0
      have "h' ! length h = h1 ! length h" using keep1 [of "length h"] fr(2) by simp
      with cell 0 show ?thesis by simp
    next
      case (Suc k)
      with i have k: "k < length rest" by simp
      then have "rest ! k < length h" using Cons.prems(1) by simp
      then have "h1 ! (rest ! k) = h ! (rest ! k)" by (rule old)
      moreover have "h' ! (length h1 + k) = f (h1 ! (rest ! k))" using IH k by blast
      ultimately show ?thesis using Suc fr(2) by simp
    qed
  qed
  from len tk outs cells show ?case by blast
qed


text \<open>
  C6. Let the input entries be valid references into the heap. Then
  \<open>enhance_toc_with_bbox\<close> returns a list of as many references as it was given;
  every dictionary that existed before the call has the contents it had (no input
  entry is mutated; the input list is only iterated), and every returned reference is
  a dictionary allocated by the call. For an entry with physical index \<open>pidx\<close> and a
  title: if \<open>pidx - 1\<close> is not an offset into the page sequence, or the fuzzy search
  of the title on page \<open>pidx - 1\<close> finds nothing, the returned entry equals the input
  entry; if the search finds a bbox (a non-empty list, as every four-number bbox is),
  the returned entry is the input entry with that bbox and with the page number
  recorded by that page, or \<open>pidx - 1\<close> when the page records none.
\<close>

theorem C6_enhance_toc_with_bbox:
  assumes valid: "\<forall>r \<in> set items. r < length h"
    and run: "enhance_toc_with_bbox h items ocr = (h', out)"
  shows "length out = length items
       \<and> take (length h) h' = h
       \<and> (\<forall>i < length items. length h \<le> out ! i \<and> out ! i < length h')
       \<and> (\<forall>i < length items. \<forall>pidx title.
             ent_physical_index (h ! (items ! i)) = Some pidx
             \<and> ent_title (h ! (items ! i)) = Some title \<longrightarrow>
               ((pidx - 1 < 0 \<or> int (length ocr) \<le> pidx - 1
                   \<longrightarrow> h' ! (out ! i) = h ! (items ! i))
                \<and> (0 \<le> pidx - 1 \<and> pidx - 1 < int (length ocr)
                     \<and> find_text_bbox_in_page (ocr ! nat (pidx - 1)) title True = None
                   \<longrightarrow> h' ! (out ! i) = h ! (items ! i))
                \<and> (\<forall>b. 0 \<le> pidx - 1 \<and> pidx - 1 < int (length ocr)
                     \<and> find_text_bbox_in_page (ocr ! nat (pidx - 1)) title True = Some b
                     \<and> b \<noteq> []
                   \<longrightarrow> h' ! (out ! i) =
                         (h ! (items ! i))
                           \<lparr>ent_bbox := Some b,
                            ent_page_no :=
                              Some (case page_no (ocr ! nat (pidx - 1)) of
                                      Some n \<Rightarrow> n
                                    | None \<Rightarrow> pidx - 1)\<rparr>)))"
proof -
  let ?f = "\<lambda>x.
     (case ent_physical_index x of
        None \<Rightarrow> x
      | Some pidx \<Rightarrow>
          (case ent_title x of
             None \<Rightarrow> x
           | Some title \<Rightarrow>
               if 0 \<le> pidx - 1 \<and> pidx - 1 < int (length ocr) then
                 (case find_text_bbox_in_page (ocr ! nat (pidx - 1)) title True of
                    None \<Rightarrow> x
                  | Some b \<Rightarrow>
                      if b \<noteq> [] then
                        x\<lparr>ent_bbox := Some b,
                          ent_page_no := Some (page_no_or (ocr ! nat (pidx - 1)) (pidx - 1))\<rparr>
                      else x)
               else x))"
  have run': "enhance_loop ocr h items [] = (h', out)"
    using run by (simp add: enhance_toc_with_bbox_def)
  have step: "\<And>h item h' e. item < length h \<Longrightarrow> enhance_item ocr h item = (h', e)
                   \<Longrightarrow> h' ! e = ?f (h ! item)"
    by (rule enhance_item_content)
  have res: "length h' = length h + length items
       \<and> take (length h) h' = h
       \<and> out = [] @ [length h ..< length h + length items]
       \<and> (\<forall>i < length items. h' ! (length h + i) = ?f (h ! (items ! i)))"
    using step valid run' by (rule enhance_loop_result)
  have out: "out = [length h ..< length h + length items]" using res by simp
  have nth_out: "out ! i = length h + i" if "i < length items" for i
    using that out by simp
  have cell: "h' ! (out ! i) = ?f (h ! (items ! i))" if "i < length items" for i
    using that res nth_out by simp
  have c1: "length out = length items" using out by simp
  have c2: "take (length h) h' = h" using res by simp
  have c3: "\<forall>i < length items. length h \<le> out ! i \<and> out ! i < length h'"
    using res nth_out by simp
  have c4: "\<forall>i < length items. \<forall>pidx title.
             ent_physical_index (h ! (items ! i)) = Some pidx
             \<and> ent_title (h ! (items ! i)) = Some title \<longrightarrow>
               ((pidx - 1 < 0 \<or> int (length ocr) \<le> pidx - 1
                   \<longrightarrow> h' ! (out ! i) = h ! (items ! i))
                \<and> (0 \<le> pidx - 1 \<and> pidx - 1 < int (length ocr)
                     \<and> find_text_bbox_in_page (ocr ! nat (pidx - 1)) title True = None
                   \<longrightarrow> h' ! (out ! i) = h ! (items ! i))
                \<and> (\<forall>b. 0 \<le> pidx - 1 \<and> pidx - 1 < int (length ocr)
                     \<and> find_text_bbox_in_page (ocr ! nat (pidx - 1)) title True = Some b
                     \<and> b \<noteq> []
                   \<longrightarrow> h' ! (out ! i) =
                         (h ! (items ! i))
                           \<lparr>ent_bbox := Some b,
                            ent_page_no :=
                              Some (case page_no (ocr ! nat (pidx - 1)) of
                                      Some n \<Rightarrow> n
                                    | None \<Rightarrow> pidx - 1)\<rparr>))"
  proof (intro allI impI)
    fix i pidx title
    assume i: "i < length items"
      and e: "ent_physical_index (h ! (items ! i)) = Some pidx
             \<and> ent_title (h ! (items ! i)) = Some title"
    have c: "h' ! (out ! i) = ?f (h ! (items ! i))" using i by (rule cell)
    show "(pidx - 1 < 0 \<or> int (length ocr) \<le> pidx - 1
                   \<longrightarrow> h' ! (out ! i) = h ! (items ! i))
                \<and> (0 \<le> pidx - 1 \<and> pidx - 1 < int (length ocr)
                     \<and> find_text_bbox_in_page (ocr ! nat (pidx - 1)) title True = None
                   \<longrightarrow> h' ! (out ! i) = h ! (items ! i))
                \<and> (\<forall>b. 0 \<le> pidx - 1 \<and> pidx - 1 < int (length ocr)
                     \<and> find_text_bbox_in_page (ocr ! nat (pidx - 1)) title True = Some b
                     \<and> b \<noteq> []
                   \<longrightarrow> h' ! (out ! i) =
                         (h ! (items ! i))
                           \<lparr>ent_bbox := Some b,
                            ent_page_no :=
                              Some (case page_no (ocr ! nat (pidx - 1)) of
                                      Some n \<Rightarrow> n
                                    | None \<Rightarrow> pidx - 1)\<rparr>)"
      unfolding c using e by (auto simp: page_no_or_def)
  qed
  from c1 c2 c3 c4 show ?thesis by blast
qed


theorem C6_enhance_toc_with_bbox_witness:
  "enhance_toc_with_bbox
      [\<lparr>ent_physical_index = Some 1, ent_title = Some ''introduction'',
        ent_bbox = None, ent_page_no = None\<rparr>,
       \<lparr>ent_physical_index = Some 5, ent_title = Some ''Methods'',
        ent_bbox = None, ent_page_no = None\<rparr>,
       \<lparr>ent_physical_index = Some 2, ent_title = Some ''Zebra Finance'',
        ent_bbox = None, ent_page_no = None\<rparr>,
       \<lparr>ent_physical_index = Some 2, ent_title = Some ''Methods and data'',
        ent_bbox = Some [0, 0, 0, 0], ent_page_no = Some 99\<rparr>]
      [0, 1, 2, 3]
      [\<lparr>page_no = None, full_layout_info = Some
         [\<lparr>item_text = Some ''Introduction'', item_bbox = Some [1, 2, 3, 4],
           item_category = Some ''Section-header''\<rparr>]\<rparr>,
       \<lparr>page_no = Some 7, full_layout_info = Some
         [\<lparr>item_text = Some ''Methods and Data'', item_bbox = Some [5, 6, 7, 8],
           item_category = Some ''Section-header''\<rparr>]\<rparr>]
    = ([\<lparr>ent_physical_index = Some 1, ent_title = Some ''introduction'',
        ent_bbox = None, ent_page_no = None\<rparr>,
       \<lparr>ent_physical_index = Some 5, ent_title = Some ''Methods'',
        ent_bbox = None, ent_page_no = None\<rparr>,
       \<lparr>ent_physical_index = Some 2, ent_title = Some ''Zebra Finance'',
        ent_bbox = None, ent_page_no = None\<rparr>,
       \<lparr>ent_physical_index = Some 2, ent_title = Some ''Methods and data'',
        ent_bbox = Some [0, 0, 0, 0], ent_page_no = Some 99\<rparr>,
       \<lparr>ent_physical_index = Some 1, ent_title = Some ''introduction'',
        ent_bbox = Some [1, 2, 3, 4], ent_page_no = Some 0\<rparr>,
       \<lparr>ent_physical_index = Some 5, ent_title = Some ''Methods'',
        ent_bbox = None, ent_page_no = None\<rparr>,
       \<lparr>ent_physical_index = Some 2, ent_title = Some ''Zebra Finance'',
        ent_bbox = None, ent_page_no = None\<rparr>,
       \<lparr>ent_physical_index = Some 2, ent_title = Some ''Methods and data'',
        ent_bbox = Some [5, 6, 7, 8], ent_page_no = Some 7\<rparr>],
       [4, 5, 6, 7])
   \<and> take 4
        [\<lparr>ent_physical_index = Some 1, ent_title = Some ''introduction'',
        ent_bbox = None, ent_page_no = None\<rparr>,
       \<lparr>ent_physical_index = Some 5, ent_title = Some ''Methods'',
        ent_bbox = None, ent_page_no = None\<rparr>,
       \<lparr>ent_physical_index = Some 2, ent_title = Some ''Zebra Finance'',
        ent_bbox = None, ent_page_no = None\<rparr>,
       \<lparr>ent_physical_index = Some 2, ent_title = Some ''Methods and data'',
        ent_bbox = Some [0, 0, 0, 0], ent_page_no = Some 99\<rparr>,
       \<lparr>ent_physical_index = Some 1, ent_title = Some ''introduction'',
        ent_bbox = Some [1, 2, 3, 4], ent_page_no = Some 0\<rparr>,
       \<lparr>ent_physical_index = Some 5, ent_title = Some ''Methods'',
        ent_bbox = None, ent_page_no = None\<rparr>,
       \<lparr>ent_physical_index = Some 2, ent_title = Some ''Zebra Finance'',
        ent_bbox = None, ent_page_no = None\<rparr>,
       \<lparr>ent_physical_index = Some 2, ent_title = Some ''Methods and data'',
        ent_bbox = Some [5, 6, 7, 8], ent_page_no = Some 7\<rparr>]
      = [\<lparr>ent_physical_index = Some 1, ent_title = Some ''introduction'',
        ent_bbox = None, ent_page_no = None\<rparr>,
       \<lparr>ent_physical_index = Some 5, ent_title = Some ''Methods'',
        ent_bbox = None, ent_page_no = None\<rparr>,
       \<lparr>ent_physical_index = Some 2, ent_title = Some ''Zebra Finance'',
        ent_bbox = None, ent_page_no = None\<rparr>,
       \<lparr>ent_physical_index = Some 2, ent_title = Some ''Methods and data'',
        ent_bbox = Some [0, 0, 0, 0], ent_page_no = Some 99\<rparr>]
   \<and> [\<lparr>ent_physical_index = Some 1, ent_title = Some ''introduction'',
        ent_bbox = None, ent_page_no = None\<rparr>,
       \<lparr>ent_physical_index = Some 5, ent_title = Some ''Methods'',
        ent_bbox = None, ent_page_no = None\<rparr>,
       \<lparr>ent_physical_index = Some 2, ent_title = Some ''Zebra Finance'',
        ent_bbox = None, ent_page_no = None\<rparr>,
       \<lparr>ent_physical_index = Some 2, ent_title = Some ''Methods and data'',
        ent_bbox = Some [0, 0, 0, 0], ent_page_no = Some 99\<rparr>,
       \<lparr>ent_physical_index = Some 1, ent_title = Some ''introduction'',
        ent_bbox = Some [1, 2, 3, 4], ent_page_no = Some 0\<rparr>,
       \<lparr>ent_physical_index = Some 5, ent_title = Some ''Methods'',
        ent_bbox = None, ent_page_no = None\<rparr>,
       \<lparr>ent_physical_index = Some 2, ent_title = Some ''Zebra Finance'',
        ent_bbox = None, ent_page_no = None\<rparr>,
       \<lparr>ent_physical_index = Some 2, ent_title = Some ''Methods and data'',
        ent_bbox = Some [5, 6, 7, 8], ent_page_no = Some 7\<rparr>] ! 4
      = (\<lparr>ent_physical_index = Some 1, ent_title = Some ''introduction'',
        ent_bbox = None, ent_page_no = None\<rparr>)
          \<lparr>ent_bbox := Some [1, 2, 3, 4], ent_page_no := Some 0\<rparr>
   \<and> [\<lparr>ent_physical_index = Some 1, ent_title = Some ''introduction'',
        ent_bbox = None, ent_page_no = None\<rparr>,
       \<lparr>ent_physical_index = Some 5, ent_title = Some ''Methods'',
        ent_bbox = None, ent_page_no = None\<rparr>,
       \<lparr>ent_physical_index = Some 2, ent_title = Some ''Zebra Finance'',
        ent_bbox = None, ent_page_no = None\<rparr>,
       \<lparr>ent_physical_index = Some 2, ent_title = Some ''Methods and data'',
        ent_bbox = Some [0, 0, 0, 0], ent_page_no = Some 99\<rparr>,
       \<lparr>ent_physical_index = Some 1, ent_title = Some ''introduction'',
        ent_bbox = Some [1, 2, 3, 4], ent_page_no = Some 0\<rparr>,
       \<lparr>ent_physical_index = Some 5, ent_title = Some ''Methods'',
        ent_bbox = None, ent_page_no = None\<rparr>,
       \<lparr>ent_physical_index = Some 2, ent_title = Some ''Zebra Finance'',
        ent_bbox = None, ent_page_no = None\<rparr>,
       \<lparr>ent_physical_index = Some 2, ent_title = Some ''Methods and data'',
        ent_bbox = Some [5, 6, 7, 8], ent_page_no = Some 7\<rparr>] ! 5
      = \<lparr>ent_physical_index = Some 5, ent_title = Some ''Methods'',
        ent_bbox = None, ent_page_no = None\<rparr>
   \<and> [\<lparr>ent_physical_index = Some 1, ent_title = Some ''introduction'',
        ent_bbox = None, ent_page_no = None\<rparr>,
       \<lparr>ent_physical_index = Some 5, ent_title = Some ''Methods'',
        ent_bbox = None, ent_page_no = None\<rparr>,
       \<lparr>ent_physical_index = Some 2, ent_title = Some ''Zebra Finance'',
        ent_bbox = None, ent_page_no = None\<rparr>,
       \<lparr>ent_physical_index = Some 2, ent_title = Some ''Methods and data'',
        ent_bbox = Some [0, 0, 0, 0], ent_page_no = Some 99\<rparr>,
       \<lparr>ent_physical_index = Some 1, ent_title = Some ''introduction'',
        ent_bbox = Some [1, 2, 3, 4], ent_page_no = Some 0\<rparr>,
       \<lparr>ent_physical_index = Some 5, ent_title = Some ''Methods'',
        ent_bbox = None, ent_page_no = None\<rparr>,
       \<lparr>ent_physical_index = Some 2, ent_title = Some ''Zebra Finance'',
        ent_bbox = None, ent_page_no = None\<rparr>,
       \<lparr>ent_physical_index = Some 2, ent_title = Some ''Methods and data'',
        ent_bbox = Some [5, 6, 7, 8], ent_page_no = Some 7\<rparr>] ! 6
      = \<lparr>ent_physical_index = Some 2, ent_title = Some ''Zebra Finance'',
        ent_bbox = None, ent_page_no = None\<rparr>
   \<and> [\<lparr>ent_physical_index = Some 1, ent_title = Some ''introduction'',
        ent_bbox = None, ent_page_no = None\<rparr>,
       \<lparr>ent_physical_index = Some 5, ent_title = Some ''Methods'',
        ent_bbox = None, ent_page_no = None\<rparr>,
       \<lparr>ent_physical_index = Some 2, ent_title = Some ''Zebra Finance'',
        ent_bbox = None, ent_page_no = None\<rparr>,
       \<lparr>ent_physical_index = Some 2, ent_title = Some ''Methods and data'',
        ent_bbox = Some [0, 0, 0, 0], ent_page_no = Some 99\<rparr>,
       \<lparr>ent_physical_index = Some 1, ent_title = Some ''introduction'',
        ent_bbox = Some [1, 2, 3, 4], ent_page_no = Some 0\<rparr>,
       \<lparr>ent_physical_index = Some 5, ent_title = Some ''Methods'',
        ent_bbox = None, ent_page_no = None\<rparr>,
       \<lparr>ent_physical_index = Some 2, ent_title = Some ''Zebra Finance'',
        ent_bbox = None, ent_page_no = None\<rparr>,
       \<lparr>ent_physical_index = Some 2, ent_title = Some ''Methods and data'',
        ent_bbox = Some [5, 6, 7, 8], ent_page_no = Some 7\<rparr>] ! 7
      = (\<lparr>ent_physical_index = Some 2, ent_title = Some ''Methods and data'',
        ent_bbox = Some [0, 0, 0, 0], ent_page_no = Some 99\<rparr>)
          \<lparr>ent_bbox := Some [5, 6, 7, 8], ent_page_no := Some 7\<rparr>"
proof -
  let ?h = "[\<lparr>ent_physical_index = Some 1, ent_title = Some ''introduction'',
        ent_bbox = None, ent_page_no = None\<rparr>,
       \<lparr>ent_physical_index = Some 5, ent_title = Some ''Methods'',
        ent_bbox = None, ent_page_no = None\<rparr>,
       \<lparr>ent_physical_index = Some 2, ent_title = Some ''Zebra Finance'',
        ent_bbox = None, ent_page_no = None\<rparr>,
       \<lparr>ent_physical_index = Some 2, ent_title = Some ''Methods and data'',
        ent_bbox = Some [0, 0, 0, 0], ent_page_no = Some 99\<rparr>]"
  let ?h' = "[\<lparr>ent_physical_index = Some 1, ent_title = Some ''introduction'',
        ent_bbox = None, ent_page_no = None\<rparr>,
       \<lparr>ent_physical_index = Some 5, ent_title = Some ''Methods'',
        ent_bbox = None, ent_page_no = None\<rparr>,
       \<lparr>ent_physical_index = Some 2, ent_title = Some ''Zebra Finance'',
        ent_bbox = None, ent_page_no = None\<rparr>,
       \<lparr>ent_physical_index = Some 2, ent_title = Some ''Methods and data'',
        ent_bbox = Some [0, 0, 0, 0], ent_page_no = Some 99\<rparr>,
       \<lparr>ent_physical_index = Some 1, ent_title = Some ''introduction'',
        ent_bbox = Some [1, 2, 3, 4], ent_page_no = Some 0\<rparr>,
       \<lparr>ent_physical_index = Some 5, ent_title = Some ''Methods'',
        ent_bbox = None, ent_page_no = None\<rparr>,
       \<lparr>ent_physical_index = Some 2, ent_title = Some ''Zebra Finance'',
        ent_bbox = None, ent_page_no = None\<rparr>,
       \<lparr>ent_physical_index = Some 2, ent_title = Some ''Methods and data'',
        ent_bbox = Some [5, 6, 7, 8], ent_page_no = Some 7\<rparr>]"
  let ?ocr = "[\<lparr>page_no = None, full_layout_info = Some
         [\<lparr>item_text = Some ''Introduction'', item_bbox = Some [1, 2, 3, 4],
           item_category = Some ''Section-header''\<rparr>]\<rparr>,
       \<lparr>page_no = Some 7, full_layout_info = Some
         [\<lparr>item_text = Some ''Methods and Data'', item_bbox = Some [5, 6, 7, 8],
           item_category = Some ''Section-header''\<rparr>]\<rparr>]"
  have valid: "\<forall>r \<in> set [0, 1, 2, 3]. r < length ?h" by simp
  have run: "enhance_toc_with_bbox ?h [0, 1, 2, 3] ?ocr = (?h', [4, 5, 6, 7])"
    by code_simp
  have f0: "find_text_bbox_in_page (?ocr ! nat (1 - 1)) ''introduction'' True
              = Some [1, 2, 3, 4]"
    by code_simp
  have f2: "find_text_bbox_in_page (?ocr ! nat (2 - 1)) ''Zebra Finance'' True = None"
    by code_simp
  have f3: "find_text_bbox_in_page (?ocr ! nat (2 - 1)) ''Methods and data'' True
              = Some [5, 6, 7, 8]"
    by code_simp
  note C6 = C6_enhance_toc_with_bbox [OF valid run]
  have frame: "take (length ?h) ?h' = ?h"
    using C6 by blast
  have cells: "\<forall>i < length [0, 1, 2, 3 :: nat]. \<forall>pidx title.
      ent_physical_index (?h ! ([0, 1, 2, 3] ! i)) = Some pidx
      \<and> ent_title (?h ! ([0, 1, 2, 3] ! i)) = Some title \<longrightarrow>
        ((pidx - 1 < 0 \<or> int (length ?ocr) \<le> pidx - 1
            \<longrightarrow> ?h' ! ([4, 5, 6, 7] ! i) = ?h ! ([0, 1, 2, 3] ! i))
         \<and> (0 \<le> pidx - 1 \<and> pidx - 1 < int (length ?ocr)
              \<and> find_text_bbox_in_page (?ocr ! nat (pidx - 1)) title True = None
            \<longrightarrow> ?h' ! ([4, 5, 6, 7] ! i) = ?h ! ([0, 1, 2, 3] ! i))
         \<and> (\<forall>b. 0 \<le> pidx - 1 \<and> pidx - 1 < int (length ?ocr)
              \<and> find_text_bbox_in_page (?ocr ! nat (pidx - 1)) title True = Some b
              \<and> b \<noteq> []
            \<longrightarrow> ?h' ! ([4, 5, 6, 7] ! i) =
                  (?h ! ([0, 1, 2, 3] ! i))
                    \<lparr>ent_bbox := Some b,
                     ent_page_no :=
                       Some (case page_no (?ocr ! nat (pidx - 1)) of
                               Some n \<Rightarrow> n
                             | None \<Rightarrow> pidx - 1)\<rparr>))"
    using C6 by blast
  have c0: "?h' ! 4 = (?h ! 0)\<lparr>ent_bbox := Some [1, 2, 3, 4], ent_page_no := Some 0\<rparr>"
    using cells [rule_format, of 0 1 "''introduction''", THEN conjunct2, THEN conjunct2,
        rule_format, of "[1, 2, 3, 4]"] f0
    by simp
  have c1: "?h' ! 5 = ?h ! 1"
    using cells [rule_format, of 1 5 "''Methods''", THEN conjunct1] by simp
  have c2: "?h' ! 6 = ?h ! 2"
    using cells [rule_format, of 2 2 "''Zebra Finance''", THEN conjunct2, THEN conjunct1] f2
    by simp
  have c3: "?h' ! 7 = (?h ! 3)\<lparr>ent_bbox := Some [5, 6, 7, 8], ent_page_no := Some 7\<rparr>"
    using cells [rule_format, of 3 2 "''Methods and data''", THEN conjunct2, THEN conjunct2,
        rule_format, of "[5, 6, 7, 8]"] f3
    by simp
  from run frame c0 c1 c2 c3 show ?thesis by simp
qed

text \<open>
  The test \<open>if bbox:\<close> is a truthiness test. A layout item whose bbox is the empty
  list lies outside the data model (a bbox has four numbers); if such an item is the
  one matched, the search returns the empty list and the entry stays as it was.
\<close>

lemma enhance_empty_bbox_unchanged:
  "enhance_toc_with_bbox
     [\<lparr>ent_physical_index = Some 1, ent_title = Some ''x'', ent_bbox = None,
       ent_page_no = None\<rparr>]
     [0]
     [\<lparr>page_no = Some 0, full_layout_info = Some
         [\<lparr>item_text = Some ''x'', item_bbox = Some [], item_category = None\<rparr>]\<rparr>]
   = ([\<lparr>ent_physical_index = Some 1, ent_title = Some ''x'', ent_bbox = None,
        ent_page_no = None\<rparr>,
       \<lparr>ent_physical_index = Some 1, ent_title = Some ''x'', ent_bbox = None,
        ent_page_no = None\<rparr>],
      [1])"
  by code_simp

end
